theory Spec2Isabelle
  imports Main "HOL-Library.Multiset"
begin

section \<open>JavaScript values\<close>

text \<open>
  A JavaScript number is \<open>NaN\<close>, an integer or an infinity: \<open>parseInt\<close> and the loop
  counters of the two pages produce nothing else. Of the integers only the doubles occur
  (section "Doubles"). Values decoded from a contract response (\<open>cvToJSON\<close>) are trees
  of objects, arrays and primitives. A \<open>string\<close> is the UTF-8 encoding of the
  JavaScript string.
\<close>

datatype number = NaN | Num int | PosInfinity | NegInfinity

datatype jsval =
    Undefined
  | Null
  | Bool bool
  | Number number
  | Str string
  | Arr "jsval list"
  | Obj "(string \<times> jsval) list"

text \<open>What a \<open>throw\<close> carries: the \<open>TypeError\<close> of a property read on
  \<open>undefined\<close>/\<open>null\<close> or of a call of a non-function, or whatever the remote call
  rejected with.\<close>

datatype error = TypeError | RemoteError string

section \<open>robustFetch\<close>

text \<open>
  \<^verbatim>\<open>
  const robustFetch = async (fn, retries = 3, delayMs = 500) => {
    for (let i = 0; i < retries; i++) {
      try {
        await new Promise(resolve => setTimeout(resolve, delayMs));
        return await fn();
      } catch (error) {
        if (i === retries - 1) throw error;
        await new Promise(resolve => setTimeout(resolve, delayMs * Math.pow(2, i)));
      }
    }
  };
  \<close>
  The leaderboard page and the history page each declare this helper; the two differ
  only in a \<open>console.warn\<close>, and console output is not part of the model.

  The operation \<open>fn\<close> is a state transformer on the state of whatever it talks to: it
  returns \<open>Inr v\<close> when its promise resolves with \<open>v\<close> and \<open>Inl e\<close> when it rejects
  with \<open>e\<close>. The promise of \<open>robustFetch\<close> settles in one of three ways; falling out
  of the loop resolves it with \<open>undefined\<close>. Next to the result and the new state the
  model returns what happened in order: each \<open>setTimeout\<close> with its delay, each call
  of \<open>fn\<close>.
\<close>

datatype ('e, 'a) settled = Rejected 'e | Resolved 'a | ResolvedUndefined

datatype timing = Delay int | Attempt

function robustFetch_loop ::
  "('s \<Rightarrow> ('e + 'a) \<times> 's) \<Rightarrow> int \<Rightarrow> int \<Rightarrow> int \<Rightarrow> 's \<Rightarrow> timing list
     \<Rightarrow> ('e, 'a) settled \<times> 's \<times> timing list" where
  "robustFetch_loop fn retries delayMs i s tr =
     (if i < retries then
        (case fn s of
           (Inr v, s') \<Rightarrow> (Resolved v, s', tr @ [Delay delayMs, Attempt])
         | (Inl e, s') \<Rightarrow>
             if i = retries - 1 then (Rejected e, s', tr @ [Delay delayMs, Attempt])
             else robustFetch_loop fn retries delayMs (i + 1) s'
                    (tr @ [Delay delayMs, Attempt, Delay (delayMs * 2 ^ nat i)]))
      else (ResolvedUndefined, s, tr))"
  by pat_completeness auto
termination
  by (relation "measure (\<lambda>(fn, retries, delayMs, i, s, tr). nat (retries - i))") auto

declare robustFetch_loop.simps [simp del]

definition robustFetch ::
  "('s \<Rightarrow> ('e + 'a) \<times> 's) \<Rightarrow> int \<Rightarrow> int \<Rightarrow> 's \<Rightarrow> ('e, 'a) settled \<times> 's \<times> timing list" where
  "robustFetch fn retries delayMs s = robustFetch_loop fn retries delayMs 0 s []"

text \<open>Reading a run: the number of calls of \<open>fn\<close> and the delays, in order.\<close>

fun attempts :: "timing list \<Rightarrow> nat" where
  "attempts [] = 0"
| "attempts (Attempt # tr) = Suc (attempts tr)"
| "attempts (Delay d # tr) = attempts tr"

fun delays :: "timing list \<Rightarrow> int list" where
  "delays [] = []"
| "delays (Attempt # tr) = delays tr"
| "delays (Delay d # tr) = d # delays tr"

text \<open>The behaviour of an operation over successive calls from a state: the state
  after \<open>n\<close> calls, and the outcome of call number \<open>n\<close> (counted from 0).\<close>

fun after :: "('s \<Rightarrow> ('e + 'a) \<times> 's) \<Rightarrow> 's \<Rightarrow> nat \<Rightarrow> 's" where
  "after fn s 0 = s"
| "after fn s (Suc n) = after fn (snd (fn s)) n"

definition outcome :: "('s \<Rightarrow> ('e + 'a) \<times> 's) \<Rightarrow> 's \<Rightarrow> nat \<Rightarrow> 'e + 'a" where
  "outcome fn s n = fst (fn (after fn s n))"

text \<open>An operation that plays a fixed script of outcomes; its state counts the calls.\<close>

definition scripted :: "(nat \<Rightarrow> 'e + 'a) \<Rightarrow> nat \<Rightarrow> ('e + 'a) \<times> nat" where
  "scripted out n = (out n, Suc n)"

text \<open>The schedule of a run with \<open>k\<close> failed attempts followed by a last attempt:
  every attempt is preceded by the fixed delay, every failed attempt but the last of
  the budget is followed by the backoff delay.\<close>

definition schedule :: "int \<Rightarrow> nat \<Rightarrow> nat \<Rightarrow> timing list" where
  "schedule D i k =
     concat (map (\<lambda>j. [Delay D, Attempt, Delay (D * 2 ^ (i + j))]) [0..<k]) @ [Delay D, Attempt]"

text \<open>The delay sequence in the words of the specification: \<open>D, D, D*2, D*4, ...\<close>
  for \<open>k+1\<close> attempts, the first \<open>D\<close> before attempt 0.\<close>

definition spec_delays :: "int \<Rightarrow> nat \<Rightarrow> int list" where
  "spec_delays D k = D # map (\<lambda>j. D * 2 ^ j) [0..<k]"

section \<open>Reading decoded responses\<close>

text \<open>
  Truthiness, as \<open>if (x)\<close>, \<open>x && y\<close> and \<open>x || y\<close> test it.
\<close>

fun truthy :: "jsval \<Rightarrow> bool" where
  "truthy Undefined = False"
| "truthy Null = False"
| "truthy (Bool b) = b"
| "truthy (Number NaN) = False"
| "truthy (Number (Num n)) = (n \<noteq> 0)"
| "truthy (Number PosInfinity) = True"
| "truthy (Number NegInfinity) = True"
| "truthy (Str s) = (s \<noteq> [])"
| "truthy (Arr xs) = True"
| "truthy (Obj fs) = True"

text \<open>
  A property read \<open>x.k\<close> throws a \<open>TypeError\<close> on \<open>undefined\<close> and \<open>null\<close>. On an
  object it gives the field or \<open>undefined\<close>. The keys the pages read (\<open>value\<close>,
  \<open>giver\<close>, \<open>receiver\<close>, \<open>amount\<close>, \<open>message\<close>, \<open>timestamp\<close>, \<open>props-received\<close>,
  \<open>props-given\<close>) are no properties of a string, number, boolean or array, so the
  read gives \<open>undefined\<close> there.
\<close>

fun getProp :: "jsval \<Rightarrow> string \<Rightarrow> error + jsval" where
  "getProp Undefined k = Inl TypeError"
| "getProp Null k = Inl TypeError"
| "getProp (Obj fs) k = Inr (case map_of fs k of None \<Rightarrow> Undefined | Some v \<Rightarrow> v)"
| "getProp v k = Inr Undefined"

text \<open>The optional read \<open>x?.k\<close>: \<open>undefined\<close> where \<open>x.k\<close> would throw. A plain read
  on a value already tested truthy cannot throw either and is written with \<open>optProp\<close>
  too.\<close>

definition optProp :: "jsval \<Rightarrow> string \<Rightarrow> jsval" where
  "optProp v k = (case getProp v k of Inl e \<Rightarrow> Undefined | Inr x \<Rightarrow> x)"

definition js_or :: "jsval \<Rightarrow> jsval \<Rightarrow> jsval" where
  "js_or a b = (if truthy a then a else b)"

text \<open>\<open>x.k.value\<close>, with both reads able to throw.\<close>

definition fieldValue :: "jsval \<Rightarrow> string \<Rightarrow> error + jsval" where
  "fieldValue x k = (case getProp x k of Inl e \<Rightarrow> Inl e | Inr y \<Rightarrow> getProp y ''value'')"

subsection \<open>Integer arithmetic\<close>

text \<open>
  Subtraction, \<open>Math.min\<close> and \<open>Math.max\<close> on integers, computed exactly. They serve
  the loaders of the sections "The leaderboard page" and "The history page", whose
  counters are exact integers. JavaScript computes with doubles: the operations as it
  performs them follow under "Doubles", and the loaders with those under "The loops with
  JavaScript's counters".
\<close>

fun js_sub :: "number \<Rightarrow> number \<Rightarrow> number" where
  "js_sub (Num a) (Num b) = Num (a - b)"
| "js_sub a b = NaN"

fun js_min :: "number \<Rightarrow> number \<Rightarrow> number" where
  "js_min (Num a) (Num b) = Num (min a b)"
| "js_min a b = NaN"

fun js_max :: "number \<Rightarrow> number \<Rightarrow> number" where
  "js_max (Num a) (Num b) = Num (max a b)"
| "js_max a b = NaN"

subsection \<open>Doubles\<close>

text \<open>
  A double holds an integer exactly when the integer has at most 53 significant bits:
  every integer up to \<open>2^53\<close> in magnitude, and beyond that only the multiples of the
  power of two that leaves 53 bits. The result of an arithmetic operation, and the
  value \<open>parseInt\<close> reads, is the nearest such integer, the one with the even
  significand when two are equally near, and an infinity from \<open>2^1024\<close> on.

  \<open>shiftOf n\<close> is the number of low bits the double nearest to \<open>n\<close> has to drop.
\<close>

function shiftOf :: "nat \<Rightarrow> nat" where
  "shiftOf n = (if n < 2 ^ 53 then 0 else Suc (shiftOf (n div 2)))"
  by pat_completeness auto
termination
  by (relation "measure (\<lambda>n. n)") auto

declare shiftOf.simps [simp del]

definition roundNat :: "nat \<Rightarrow> nat" where
  "roundNat n =
     (let sh = shiftOf n; q = n div 2 ^ sh; r = n mod 2 ^ sh
      in (if 2 * r > 2 ^ sh \<or> (2 * r = 2 ^ sh \<and> odd q) then q + 1 else q) * 2 ^ sh)"

definition overflow :: nat where
  "overflow = 2 ^ 1024"

definition roundDouble :: "int \<Rightarrow> number" where
  "roundDouble n =
     (let m = roundNat (nat \<bar>n\<bar>)
      in if m \<ge> overflow then (if n < 0 then NegInfinity else PosInfinity)
         else Num (if n < 0 then - int m else int m))"

text \<open>\<open>a - b\<close>, \<open>a < b\<close>, \<open>a >= b\<close>, \<open>Math.min\<close>, \<open>Math.max\<close>, \<open>i++\<close> and \<open>i--\<close> on
  these numbers.\<close>

fun double_sub :: "number \<Rightarrow> number \<Rightarrow> number" where
  "double_sub (Num a) (Num b) = roundDouble (a - b)"
| "double_sub NaN b = NaN"
| "double_sub a NaN = NaN"
| "double_sub PosInfinity PosInfinity = NaN"
| "double_sub NegInfinity NegInfinity = NaN"
| "double_sub PosInfinity b = PosInfinity"
| "double_sub NegInfinity b = NegInfinity"
| "double_sub a PosInfinity = NegInfinity"
| "double_sub a NegInfinity = PosInfinity"

fun double_lt :: "number \<Rightarrow> number \<Rightarrow> bool" where
  "double_lt (Num a) (Num b) = (a < b)"
| "double_lt NaN b = False"
| "double_lt a NaN = False"
| "double_lt a NegInfinity = False"
| "double_lt PosInfinity b = False"
| "double_lt NegInfinity b = True"
| "double_lt a PosInfinity = True"

fun double_ge :: "number \<Rightarrow> number \<Rightarrow> bool" where
  "double_ge NaN b = False"
| "double_ge a NaN = False"
| "double_ge a b = (\<not> double_lt a b)"

fun double_min :: "number \<Rightarrow> number \<Rightarrow> number" where
  "double_min NaN b = NaN"
| "double_min a NaN = NaN"
| "double_min a b = (if double_lt b a then b else a)"

fun double_max :: "number \<Rightarrow> number \<Rightarrow> number" where
  "double_max NaN b = NaN"
| "double_max a NaN = NaN"
| "double_max a b = (if double_lt a b then b else a)"

text \<open>\<open>x > 0\<close>, the test a sort applies to what its comparator returns.\<close>

fun positive :: "number \<Rightarrow> bool" where
  "positive (Num n) = (0 < n)"
| "positive PosInfinity = True"
| "positive a = False"

fun double_succ :: "number \<Rightarrow> number" where
  "double_succ (Num i) = roundDouble (i + 1)"
| "double_succ a = a"

fun double_pred :: "number \<Rightarrow> number" where
  "double_pred (Num i) = roundDouble (i - 1)"
| "double_pred a = a"

fun js_neg :: "number \<Rightarrow> number" where
  "js_neg NaN = NaN"
| "js_neg (Num n) = Num (- n)"
| "js_neg PosInfinity = NegInfinity"
| "js_neg NegInfinity = PosInfinity"

subsection \<open>parseInt\<close>

text \<open>
  \<open>parseInt\<close> with no radix: leading white space, an optional sign, an optional
  \<open>0x\<close> prefix, then the longest run of digits; \<open>NaN\<close> when there is none, and else
  the double nearest to the integer the digits denote. A value that is no string is
  first turned into one; an array turns into its elements joined by commas, so only its
  first element can contribute digits.

  White space is every \<open>StrWhiteSpaceChar\<close>: the code points 9 to 13, 32, U+00A0,
  U+1680, U+2000 to U+200A, U+2028, U+2029, U+202F, U+205F, U+3000 and U+FEFF.
  \<open>whiteLength s\<close> is the number of bytes of the white space character at the front
  of \<open>s\<close>, 0 when there is none. (The byte 160 on its own, which is no UTF-8, is read
  as U+00A0.)
\<close>

definition whiteLength :: "string \<Rightarrow> nat" where
  "whiteLength s =
     (case map of_char s of
        [] \<Rightarrow> 0
      | b1 # bs \<Rightarrow>
          if b1 \<in> {9, 10, 11, 12, 13, 32, 160 :: nat} then 1
          else if b1 = 194 then
            (case bs of b2 # rest \<Rightarrow> if b2 = 160 then 2 else 0 | [] \<Rightarrow> 0)
          else
            (case bs of
               b2 # b3 # rest \<Rightarrow>
                 if (b1 = 225 \<and> b2 = 154 \<and> b3 = 128)
                    \<or> (b1 = 226 \<and> b2 = 128 \<and> (128 \<le> b3 \<and> b3 \<le> 138 \<or> b3 \<in> {168, 169, 175}))
                    \<or> (b1 = 226 \<and> b2 = 129 \<and> b3 = 159)
                    \<or> (b1 = 227 \<and> b2 = 128 \<and> b3 = 128)
                    \<or> (b1 = 239 \<and> b2 = 187 \<and> b3 = 191)
                 then 3 else 0
             | other \<Rightarrow> 0))"

function dropWhite :: "string \<Rightarrow> string" where
  "dropWhite s = (if whiteLength s = 0 then s else dropWhite (drop (whiteLength s) s))"
  by pat_completeness auto
termination
proof (relation "measure length")
  show "wf (measure length)" by simp
next
  fix s :: string
  have "whiteLength [] = 0" by (simp add: whiteLength_def)
  moreover assume "whiteLength s \<noteq> 0"
  ultimately have "s \<noteq> []" "0 < whiteLength s" by auto
  then show "(drop (whiteLength s) s, s) \<in> measure length" by simp
qed

declare dropWhite.simps [simp del]

definition digitValue :: "char \<Rightarrow> nat" where
  "digitValue c =
     (let n = (of_char c :: nat) in
      if 48 \<le> n \<and> n \<le> 57 then n - 48
      else if 97 \<le> n \<and> n \<le> 122 then n - 87
      else if 65 \<le> n \<and> n \<le> 90 then n - 55
      else 36)"

definition parseDigits :: "nat \<Rightarrow> string \<Rightarrow> number" where
  "parseDigits radix s =
     (let ds = takeWhile (\<lambda>c. digitValue c < radix) s in
      if ds = [] then NaN
      else roundDouble (int (foldl (\<lambda>a c. radix * a + digitValue c) 0 ds)))"

fun parseUnsigned :: "string \<Rightarrow> number" where
  "parseUnsigned (a # b # rest) =
     (if a = CHR ''0'' \<and> (b = CHR ''x'' \<or> b = CHR ''X'') then parseDigits 16 rest
      else parseDigits 10 (a # b # rest))"
| "parseUnsigned s = parseDigits 10 s"

definition parseIntString :: "string \<Rightarrow> number" where
  "parseIntString s =
     (case dropWhite s of
        [] \<Rightarrow> NaN
      | c # rest \<Rightarrow>
          if c = CHR ''-'' then js_neg (parseUnsigned rest)
          else if c = CHR ''+'' then parseUnsigned rest
          else parseUnsigned (c # rest))"

fun parseInt :: "jsval \<Rightarrow> number" where
  "parseInt (Str s) = parseIntString s"
| "parseInt (Number (Num n)) = Num n"
| "parseInt (Arr (x # xs)) = parseInt x"
| "parseInt v = NaN"

section \<open>Remote lookups\<close>

text \<open>
  \<^verbatim>\<open>
  await robustFetch(() => fetchCallReadOnlyFunction({
    contractAddress: CONTRACT_ADDRESS, contractName: CONTRACT_NAME,
    functionName: ..., functionArgs: [...], network, senderAddress: ... }));
  cvToJSON(...)
  \<close>
  A request is what varies between the calls: the function name, the arguments and the
  sender (contract address, contract name and network are the same in every call). The
  remote is a parameter of the model: a state transformer that answers a request with
  the decoded response (\<open>cvToJSON\<close> of the Clarity value) or rejects. Building the
  arguments (\<open>uintCV\<close>, \<open>principalCV\<close>) happens inside the closure given to
  \<open>robustFetch\<close>, so a throw there is a rejection of the remote call as well.

  The world carries the remote's state and, in order, the requests for which
  \<open>robustFetch\<close> was called (one entry per lookup, however many attempts it took).
\<close>

datatype cv = UintCV number | PrincipalCV jsval

record request =
  functionName :: string
  functionArgs :: "cv list"
  senderAddress :: jsval

type_synonym 's remote = "request \<Rightarrow> 's \<Rightarrow> (error + jsval) \<times> 's"

record 's world =
  remote_state :: 's
  lookups :: "request list"

text \<open>One lookup, with the defaults \<open>retries = 3\<close>, \<open>delayMs = 500\<close>. Were
  \<open>robustFetch\<close> to resolve with \<open>undefined\<close>, \<open>cvToJSON(undefined)\<close> would throw.\<close>

definition lookup :: "'s remote \<Rightarrow> request \<Rightarrow> 's world \<Rightarrow> (error + jsval) \<times> 's world" where
  "lookup remote req w =
     (case robustFetch (remote req) 3 500 (remote_state w) of
        (r, s', tr) \<Rightarrow>
          ((case r of Resolved v \<Rightarrow> Inr v | Rejected e \<Rightarrow> Inl e | ResolvedUndefined \<Rightarrow> Inl TypeError),
           \<lparr>remote_state = s', lookups = lookups w @ [req]\<rparr>))"

definition counterRequest :: "jsval \<Rightarrow> request" where
  "counterRequest sender =
     \<lparr>functionName = ''get-current-props-id'', functionArgs = [], senderAddress = sender\<rparr>"

definition propsRequest :: "jsval \<Rightarrow> number \<Rightarrow> request" where
  "propsRequest sender i =
     \<lparr>functionName = ''get-props-by-id'', functionArgs = [UintCV i], senderAddress = sender\<rparr>"

definition statsRequest :: "jsval \<Rightarrow> request" where
  "statsRequest address =
     \<lparr>functionName = ''get-user-stats'', functionArgs = [PrincipalCV address],
      senderAddress = address\<rparr>"

definition historyRequest :: "string \<Rightarrow> request" where
  "historyRequest userAddress =
     \<lparr>functionName = ''get-user-history'', functionArgs = [PrincipalCV (Str userAddress)],
      senderAddress = Str userAddress\<rparr>"

text \<open>The results of looking up a list of requests one after the other.\<close>

fun lookupAll :: "'s remote \<Rightarrow> request list \<Rightarrow> 's world \<Rightarrow> (error + jsval) list \<times> 's world" where
  "lookupAll remote [] w = ([], w)"
| "lookupAll remote (q # qs) w =
     (case lookup remote q w of
        (r, w') \<Rightarrow> (case lookupAll remote qs w' of (rs, w'') \<Rightarrow> (r # rs, w'')))"

text \<open>
  \<^verbatim>\<open>
  const counterJSON = cvToJSON(counterResult);
  const totalProps = counterJSON.value ? parseInt(counterJSON.value.value) : 0;
  \<close>
\<close>

definition totalPropsOf :: "jsval \<Rightarrow> error + number" where
  "totalPropsOf counterJSON =
     (case getProp counterJSON ''value'' of
        Inl e \<Rightarrow> Inl e
      | Inr v \<Rightarrow> Inr (if truthy v then parseInt (optProp v ''value'') else Num 0))"

text \<open>
  \<^verbatim>\<open>
  const propData = propsJSON.value?.value?.value || propsJSON.value?.value;
  \<close>
\<close>

definition propDataOf :: "jsval \<Rightarrow> error + jsval" where
  "propDataOf propsJSON =
     (case getProp propsJSON ''value'' of
        Inl e \<Rightarrow> Inl e
      | Inr v \<Rightarrow> Inr (js_or (optProp (optProp v ''value'') ''value'') (optProp v ''value'')))"

section \<open>The leaderboard page\<close>

record UserStats =
  address :: jsval
  propsReceived :: number
  propsGiven :: number

record LeaderboardUser = UserStats +
  rank :: nat

record LeaderboardPage =
  topUsers :: "LeaderboardUser list"
  isLoading :: bool

text \<open>The state the component starts in: \<open>useState([])\<close>, \<open>useState(true)\<close>.\<close>

definition LeaderboardPage_init :: LeaderboardPage where
  "LeaderboardPage_init = \<lparr>topUsers = [], isLoading = True\<rparr>"

text \<open>
  \<open>uniqueUsers\<close> is a \<open>Set\<close>: it iterates in insertion order, and \<open>add\<close> leaves it as
  it is when the value is already there. Primitives are compared by value; an object or
  array out of a decoded response is a fresh reference, equal to none added before.
\<close>

fun primitive :: "jsval \<Rightarrow> bool" where
  "primitive (Arr xs) = False"
| "primitive (Obj fs) = False"
| "primitive v = True"

definition set_add :: "jsval list \<Rightarrow> jsval \<Rightarrow> jsval list" where
  "set_add xs v = (if primitive v \<and> v \<in> set xs then xs else xs @ [v])"

text \<open>
  \<^verbatim>\<open>
  if (propData && propData.giver && propData.receiver) {
    uniqueUsers.add(propData.giver.value);
    uniqueUsers.add(propData.receiver.value);
  }
  \<close>
  The identities a decoded record adds, in order; none when the test fails.
\<close>

definition identitiesOf :: "jsval \<Rightarrow> jsval list" where
  "identitiesOf propData =
     (if truthy propData \<and> truthy (optProp propData ''giver'')
         \<and> truthy (optProp propData ''receiver'')
      then [optProp (optProp propData ''giver'') ''value'',
            optProp (optProp propData ''receiver'') ''value'']
      else [])"

text \<open>The body of the first loop for index \<open>i\<close>: everything is inside
  \<open>try { ... } catch (error) { console.error(...) }\<close>.\<close>

definition propsBody ::
  "string \<Rightarrow> 's remote \<Rightarrow> int \<Rightarrow> jsval list \<Rightarrow> 's world \<Rightarrow> jsval list \<times> 's world" where
  "propsBody CONTRACT_ADDRESS remote i uniqueUsers w =
     (case lookup remote (propsRequest (Str CONTRACT_ADDRESS) (Num i)) w of
        (Inl e, w') \<Rightarrow> (uniqueUsers, w')
      | (Inr propsJSON, w') \<Rightarrow>
          (case propDataOf propsJSON of
             Inl e \<Rightarrow> (uniqueUsers, w')
           | Inr propData \<Rightarrow> (foldl set_add uniqueUsers (identitiesOf propData), w')))"

text \<open>\<open>for (let i = startIndex; i < totalProps; i++)\<close>, with the counter an exact
  integer. JavaScript's counter is a double: it takes the same values as long as the
  total is at most \<open>2^53\<close>, and beyond that \<open>i++\<close> can leave \<open>i\<close> as it is.
  \<open>scanProps_fuel\<close> below is the loop with the double; for totals up to \<open>2^53\<close> it
  returns what this one returns (\<open>scanProps_fuel_safe\<close>).\<close>

function scanProps ::
  "string \<Rightarrow> 's remote \<Rightarrow> int \<Rightarrow> int \<Rightarrow> jsval list \<Rightarrow> 's world \<Rightarrow> jsval list \<times> 's world" where
  "scanProps CONTRACT_ADDRESS remote i totalProps uniqueUsers w =
     (if i < totalProps then
        (case propsBody CONTRACT_ADDRESS remote i uniqueUsers w of
           (uniqueUsers', w') \<Rightarrow> scanProps CONTRACT_ADDRESS remote (i + 1) totalProps uniqueUsers' w')
      else (uniqueUsers, w))"
  by pat_completeness auto
termination
  by (relation "measure (\<lambda>(ca, remote, i, totalProps, uniqueUsers, w). nat (totalProps - i))") auto

declare scanProps.simps [simp del]

text \<open>
  \<^verbatim>\<open>
  if (statsJSON.value?.value) {
    userStats.push({
      address,
      propsReceived: parseInt(statsJSON.value.value['props-received'].value),
      propsGiven: parseInt(statsJSON.value.value['props-given'].value),
    });
  }
  \<close>
  \<open>Inr None\<close>: nothing pushed; \<open>Inl\<close>: a read threw.
\<close>

definition statsOf :: "jsval \<Rightarrow> jsval \<Rightarrow> error + UserStats option" where
  "statsOf addr statsJSON =
     (case getProp statsJSON ''value'' of
        Inl e \<Rightarrow> Inl e
      | Inr v \<Rightarrow>
          if truthy (optProp v ''value'') then
            (case fieldValue (optProp v ''value'') ''props-received'' of
               Inl e \<Rightarrow> Inl e
             | Inr received \<Rightarrow>
                 (case fieldValue (optProp v ''value'') ''props-given'' of
                    Inl e \<Rightarrow> Inl e
                  | Inr given \<Rightarrow>
                      Inr (Some \<lparr>address = addr, propsReceived = parseInt received,
                                 propsGiven = parseInt given\<rparr>)))
          else Inr None)"

definition statsBody ::
  "'s remote \<Rightarrow> jsval \<Rightarrow> UserStats list \<Rightarrow> 's world \<Rightarrow> UserStats list \<times> 's world" where
  "statsBody remote addr userStats w =
     (case lookup remote (statsRequest addr) w of
        (Inl e, w') \<Rightarrow> (userStats, w')
      | (Inr statsJSON, w') \<Rightarrow>
          (case statsOf addr statsJSON of
             Inr (Some u) \<Rightarrow> (userStats @ [u], w')
           | Inr None \<Rightarrow> (userStats, w')
           | Inl e \<Rightarrow> (userStats, w')))"

text \<open>\<open>for (const address of Array.from(uniqueUsers))\<close>; the loop variable is
  written \<open>addr\<close>, \<open>address\<close> being the field of the record.\<close>

fun fetchStats ::
  "'s remote \<Rightarrow> jsval list \<Rightarrow> UserStats list \<Rightarrow> 's world \<Rightarrow> UserStats list \<times> 's world" where
  "fetchStats remote [] userStats w = (userStats, w)"
| "fetchStats remote (addr # rest) userStats w =
     (case statsBody remote addr userStats w of
        (userStats', w') \<Rightarrow> fetchStats remote rest userStats' w')"

text \<open>
  \<^verbatim>\<open>
  const sorted = userStats.sort((a, b) => b.propsReceived - a.propsReceived);
  const leaderboard = sorted.map((user, index) => ({ ...user, rank: index + 1 }));
  \<close>
  \<open>Array.prototype.sort\<close> is stable: \<open>a\<close> stays before a later \<open>b\<close> unless the
  comparator is positive on them. It is modelled by the stable insertion sort driven by
  the comparator. (Where the comparator returns \<open>NaN\<close> it is no consistent order and
  the language leaves the outcome to the implementation; the properties below are about
  numeric keys.)
\<close>

definition byPropsReceived :: "UserStats \<Rightarrow> UserStats \<Rightarrow> number" where
  "byPropsReceived a b = double_sub (propsReceived b) (propsReceived a)"


fun insert_by :: "('a \<Rightarrow> 'a \<Rightarrow> number) \<Rightarrow> 'a \<Rightarrow> 'a list \<Rightarrow> 'a list" where
  "insert_by cmp x [] = [x]"
| "insert_by cmp x (y # ys) =
     (if positive (cmp x y) then y # insert_by cmp x ys else x # y # ys)"

fun array_sort :: "('a \<Rightarrow> 'a \<Rightarrow> number) \<Rightarrow> 'a list \<Rightarrow> 'a list" where
  "array_sort cmp [] = []"
| "array_sort cmp (x # xs) = insert_by cmp x (array_sort cmp xs)"

definition withRank :: "UserStats \<Rightarrow> nat \<Rightarrow> LeaderboardUser" where
  "withRank user index =
     \<lparr>address = address user, propsReceived = propsReceived user,
      propsGiven = propsGiven user, rank = index + 1\<rparr>"

definition rankUsers :: "UserStats list \<Rightarrow> LeaderboardUser list" where
  "rankUsers userStats =
     (let sorted = array_sort byPropsReceived userStats
      in map2 withRank sorted [0..<length sorted])"

text \<open>
  The statements of \<open>loadLeaderboard\<close> inside \<open>try { ... }\<close>; \<open>Inl e\<close> when \<open>e\<close> is
  thrown out of them. The window size is the constant 10 of the source, taken as a
  parameter. A comparison with \<open>NaN\<close> is false, so with a \<open>NaN\<close> bound the first loop
  does not run. The arithmetic is that of integers: this is the loader for totals up to
  \<open>2^53\<close>, where JavaScript's arithmetic is the same; \<open>loadLeaderboard_fuel\<close> below
  is the loader for every total.
\<close>

definition loadLeaderboard_try ::
  "int \<Rightarrow> string \<Rightarrow> 's remote \<Rightarrow> LeaderboardPage \<Rightarrow> 's world
     \<Rightarrow> (error + unit) \<times> LeaderboardPage \<times> 's world" where
  "loadLeaderboard_try window CONTRACT_ADDRESS remote page w =
     (case lookup remote (counterRequest (Str CONTRACT_ADDRESS)) w of
        (Inl e, w1) \<Rightarrow> (Inl e, page, w1)
      | (Inr counterJSON, w1) \<Rightarrow>
          (case totalPropsOf counterJSON of
             Inl e \<Rightarrow> (Inl e, page, w1)
           | Inr totalProps \<Rightarrow>
               if totalProps = Num 0 then (Inr (), page\<lparr>isLoading := False\<rparr>, w1)
               else
                 let limit = js_min (Num window) totalProps;
                     startIndex = js_max (Num 0) (js_sub totalProps limit);
                     (uniqueUsers, w2) =
                       (case (startIndex, totalProps) of
                          (Num a, Num b) \<Rightarrow> scanProps CONTRACT_ADDRESS remote a b [] w1
                        | _ \<Rightarrow> ([], w1))
                 in if uniqueUsers = [] then (Inr (), page\<lparr>isLoading := False\<rparr>, w2)
                    else
                      let (userStats, w3) = fetchStats remote uniqueUsers [] w2
                      in (Inr (), page\<lparr>topUsers := rankUsers userStats\<rparr>, w3)))"

text \<open>
  \<open>try { ... } catch (error) { console.error(...) } finally { setIsLoading(false) }\<close>:
  the first component is how the promise of \<open>loadLeaderboard\<close> settles.
\<close>

definition loadLeaderboardWindow ::
  "int \<Rightarrow> string \<Rightarrow> 's remote \<Rightarrow> LeaderboardPage \<Rightarrow> 's world
     \<Rightarrow> (error + unit) \<times> LeaderboardPage \<times> 's world" where
  "loadLeaderboardWindow window CONTRACT_ADDRESS remote page w =
     (case loadLeaderboard_try window CONTRACT_ADDRESS remote page w of
        (r, page', w') \<Rightarrow> (Inr (), page'\<lparr>isLoading := False\<rparr>, w'))"

definition loadLeaderboard ::
  "string \<Rightarrow> 's remote \<Rightarrow> LeaderboardPage \<Rightarrow> 's world
     \<Rightarrow> (error + unit) \<times> LeaderboardPage \<times> 's world" where
  "loadLeaderboard = loadLeaderboardWindow 10"

section \<open>The history page\<close>

datatype TabType = TabAll | TabReceived | TabGiven

datatype ItemType = ItemReceived | ItemGiven

text \<open>The fields \<open>id\<close>, \<open>type\<close>, \<open>from\<close> and \<open>to\<close> of the source's \<open>HistoryItem\<close>
  carry the prefix \<open>item_\<close>; the page's \<open>isLoading\<close> is \<open>historyLoading\<close>.\<close>

record HistoryItem =
  item_id :: number
  item_type :: ItemType
  item_from :: jsval
  item_to :: jsval
  amount :: number
  message :: jsval
  blockHeight :: number

record HistoryPage =
  historyItems :: "HistoryItem list"
  historyLoading :: bool

text \<open>
  \<^verbatim>\<open>
  items.push({ id, type, from, to,
    amount: parseInt(propData.amount.value),
    message: propData.message.value,
    blockHeight: parseInt(propData.timestamp.value) });
  \<close>
  The item to push, once \<open>from\<close> and \<open>to\<close> are known; a read of a missing field throws
  before anything is pushed.
\<close>

definition itemWith ::
  "number \<Rightarrow> ItemType \<Rightarrow> jsval \<Rightarrow> jsval \<Rightarrow> jsval \<Rightarrow> error + HistoryItem" where
  "itemWith i ty giver receiver propData =
     (case fieldValue propData ''amount'' of
        Inl e \<Rightarrow> Inl e
      | Inr a \<Rightarrow>
          (case fieldValue propData ''message'' of
             Inl e \<Rightarrow> Inl e
           | Inr m \<Rightarrow>
               (case fieldValue propData ''timestamp'' of
                  Inl e \<Rightarrow> Inl e
                | Inr t \<Rightarrow>
                    Inr \<lparr>item_id = i, item_type = ty, item_from = giver, item_to = receiver,
                         amount = parseInt a, message = m, blockHeight = parseInt t\<rparr>)))"

text \<open>"Received": what the \<open>try\<close> block does with a decoded response.
  \<open>Inr None\<close>: nothing pushed; \<open>Inl\<close>: a read threw.\<close>

definition receivedItem :: "number \<Rightarrow> jsval \<Rightarrow> error + HistoryItem option" where
  "receivedItem i propsJSON =
     (case propDataOf propsJSON of
        Inl e \<Rightarrow> Inl e
      | Inr propData \<Rightarrow>
          if truthy propData then
            (case fieldValue propData ''giver'' of
               Inl e \<Rightarrow> Inl e
             | Inr giver \<Rightarrow>
                 (case fieldValue propData ''receiver'' of
                    Inl e \<Rightarrow> Inl e
                  | Inr receiver \<Rightarrow>
                      map_sum id Some (itemWith i ItemReceived giver receiver propData)))
          else Inr None)"

definition receivedBody ::
  "string \<Rightarrow> 's remote \<Rightarrow> jsval \<Rightarrow> HistoryItem list \<Rightarrow> 's world \<Rightarrow> HistoryItem list \<times> 's world" where
  "receivedBody userAddress remote idWrapper items w =
     (case getProp idWrapper ''value'' of
        Inl e \<Rightarrow> (items, w)
      | Inr v \<Rightarrow>
          (case lookup remote (propsRequest (Str userAddress) (parseInt v)) w of
             (Inl e, w') \<Rightarrow> (items, w')
           | (Inr propsJSON, w') \<Rightarrow>
               (case receivedItem (parseInt v) propsJSON of
                  Inr (Some item) \<Rightarrow> (items @ [item], w')
                | Inr None \<Rightarrow> (items, w')
                | Inl e \<Rightarrow> (items, w'))))"

text \<open>\<open>for (const idWrapper of recentIds)\<close>\<close>

fun fetchReceived ::
  "string \<Rightarrow> 's remote \<Rightarrow> jsval list \<Rightarrow> HistoryItem list \<Rightarrow> 's world
     \<Rightarrow> HistoryItem list \<times> 's world" where
  "fetchReceived userAddress remote [] items w = (items, w)"
| "fetchReceived userAddress remote (idWrapper # rest) items w =
     (case receivedBody userAddress remote idWrapper items w of
        (items', w') \<Rightarrow> fetchReceived userAddress remote rest items' w')"

text \<open>
  \<^verbatim>\<open>
  const historyIds = historyJSON.value?.value || [];
  const recentIds = historyIds.slice(-20).reverse();
  \<close>
  Only an array has both \<open>slice\<close> and \<open>reverse\<close>; on any other truthy value one of the
  two calls throws a \<open>TypeError\<close>.
\<close>

definition recentIdsOf :: "jsval \<Rightarrow> error + jsval list" where
  "recentIdsOf historyJSON =
     (case getProp historyJSON ''value'' of
        Inl e \<Rightarrow> Inl e
      | Inr v \<Rightarrow>
          (case js_or (optProp v ''value'') (Arr []) of
             Arr historyIds \<Rightarrow> Inr (rev (drop (length historyIds - 20) historyIds))
           | other \<Rightarrow> Inl TypeError))"

text \<open>"Given" and "All": what the \<open>try\<close> block does with the decoded response for
  index \<open>i\<close>.\<close>

definition scanItem :: "TabType \<Rightarrow> string \<Rightarrow> int \<Rightarrow> jsval \<Rightarrow> error + HistoryItem option" where
  "scanItem activeTab userAddress i propsJSON =
     (case propDataOf propsJSON of
        Inl e \<Rightarrow> Inl e
      | Inr propData \<Rightarrow>
          if truthy propData then
            (case fieldValue propData ''giver'' of
               Inl e \<Rightarrow> Inl e
             | Inr giver \<Rightarrow>
                 (case fieldValue propData ''receiver'' of
                    Inl e \<Rightarrow> Inl e
                  | Inr receiver \<Rightarrow>
                      let isGiver = (giver = Str userAddress);
                          isReceiver = (receiver = Str userAddress)
                      in if activeTab = TabGiven \<and> isGiver then
                           map_sum id Some (itemWith (Num i) ItemGiven giver receiver propData)
                         else if activeTab = TabAll \<and> (isGiver \<or> isReceiver) then
                           map_sum id Some
                             (itemWith (Num i) (if isReceiver then ItemReceived else ItemGiven)
                                giver receiver propData)
                         else Inr None))
          else Inr None)"

definition historyBody ::
  "TabType \<Rightarrow> string \<Rightarrow> 's remote \<Rightarrow> int \<Rightarrow> HistoryItem list \<Rightarrow> 's world
     \<Rightarrow> HistoryItem list \<times> 's world" where
  "historyBody activeTab userAddress remote i items w =
     (case lookup remote (propsRequest (Str userAddress) (Num i)) w of
        (Inl e, w') \<Rightarrow> (items, w')
      | (Inr propsJSON, w') \<Rightarrow>
          (case scanItem activeTab userAddress i propsJSON of
             Inr (Some item) \<Rightarrow> (items @ [item], w')
           | Inr None \<Rightarrow> (items, w')
           | Inl e \<Rightarrow> (items, w')))"

text \<open>\<open>for (let i = totalProps - 1; i >= startIndex; i--)\<close>, with the counter an exact
  integer; \<open>scanHistory_fuel\<close> below is the loop with the double, and agrees with this
  one for totals up to \<open>2^53\<close> (\<open>scanHistory_fuel_safe\<close>).\<close>

function scanHistory ::
  "TabType \<Rightarrow> string \<Rightarrow> 's remote \<Rightarrow> int \<Rightarrow> int \<Rightarrow> HistoryItem list \<Rightarrow> 's world
     \<Rightarrow> HistoryItem list \<times> 's world" where
  "scanHistory activeTab userAddress remote i startIndex items w =
     (if i \<ge> startIndex then
        (case historyBody activeTab userAddress remote i items w of
           (items', w') \<Rightarrow> scanHistory activeTab userAddress remote (i - 1) startIndex items' w')
      else (items, w))"
  by pat_completeness auto
termination
  by (relation "measure (\<lambda>(tab, user, remote, i, startIndex, items, w). nat (i - startIndex + 1))")
     auto

declare scanHistory.simps [simp del]

text \<open>
  The statements of \<open>loadHistory\<close> inside \<open>try { ... }\<close> up to \<open>setHistoryItems(items)\<close>:
  the items collected, or \<open>Inl e\<close> when \<open>e\<close> is thrown out of them. The window size is
  the constant 50 of the source, taken as a parameter. The arithmetic is that of
  integers: this is the loader for totals up to \<open>2^53\<close>; \<open>loadHistory_fuel\<close> below is
  the loader for every total.
\<close>

definition loadHistory_try ::
  "int \<Rightarrow> TabType \<Rightarrow> string \<Rightarrow> 's remote \<Rightarrow> 's world
     \<Rightarrow> (error + HistoryItem list) \<times> 's world" where
  "loadHistory_try window activeTab userAddress remote w =
     (if activeTab = TabReceived then
        (case lookup remote (historyRequest userAddress) w of
           (Inl e, w1) \<Rightarrow> (Inl e, w1)
         | (Inr historyJSON, w1) \<Rightarrow>
             (case recentIdsOf historyJSON of
                Inl e \<Rightarrow> (Inl e, w1)
              | Inr recentIds \<Rightarrow>
                  (case fetchReceived userAddress remote recentIds [] w1 of
                     (items, w2) \<Rightarrow> (Inr items, w2))))
      else
        (case lookup remote (counterRequest (Str userAddress)) w of
           (Inl e, w1) \<Rightarrow> (Inl e, w1)
         | (Inr counterJSON, w1) \<Rightarrow>
             (case totalPropsOf counterJSON of
                Inl e \<Rightarrow> (Inl e, w1)
              | Inr totalProps \<Rightarrow>
                  let limit = js_min (Num window) totalProps;
                      startIndex = js_max (Num 0) (js_sub totalProps limit)
                  in (case (js_sub totalProps (Num 1), startIndex) of
                        (Num a, Num b) \<Rightarrow>
                          (case scanHistory activeTab userAddress remote a b [] w1 of
                             (items, w2) \<Rightarrow> (Inr items, w2))
                      | other \<Rightarrow> (Inr [], w1)))))"

text \<open>
  \<^verbatim>\<open>
  setIsLoading(true); setHistoryItems([]);
  try { ...; setHistoryItems(items); }
  catch (error) { console.error(...) } finally { setIsLoading(false); }
  \<close>
  The first component is how the promise of \<open>loadHistory\<close> settles.
\<close>

definition loadHistoryWindow ::
  "int \<Rightarrow> TabType \<Rightarrow> string \<Rightarrow> 's remote \<Rightarrow> HistoryPage \<Rightarrow> 's world
     \<Rightarrow> (error + unit) \<times> HistoryPage \<times> 's world" where
  "loadHistoryWindow window activeTab userAddress remote page w =
     (case loadHistory_try window activeTab userAddress remote w of
        (Inl e, w') \<Rightarrow> (Inr (), page\<lparr>historyItems := [], historyLoading := False\<rparr>, w')
      | (Inr items, w') \<Rightarrow> (Inr (), page\<lparr>historyItems := items, historyLoading := False\<rparr>, w'))"

definition loadHistory ::
  "TabType \<Rightarrow> string \<Rightarrow> 's remote \<Rightarrow> HistoryPage \<Rightarrow> 's world
     \<Rightarrow> (error + unit) \<times> HistoryPage \<times> 's world" where
  "loadHistory = loadHistoryWindow 50"

section \<open>The loops with JavaScript's counters\<close>

text \<open>
  The two counting loops once more, as JavaScript runs them: counter and bounds are
  doubles, \<open>i++\<close> and \<open>i--\<close> round, and a counter that rounding leaves unchanged
  never reaches its bound. A loop that may not end takes fuel, one unit per test of its
  condition: \<open>Returned\<close> is the result of a loop that ended, \<open>OutOfFuel\<close> carries the
  world reached when the fuel ran out.
\<close>

datatype ('w, 'a) run = OutOfFuel 'w | Returned 'a

fun returned :: "('w, 'a) run \<Rightarrow> bool" where
  "returned (Returned r) = True"
| "returned (OutOfFuel w) = False"

text \<open>The body of the leaderboard's first loop, \<open>uintCV(i)\<close> taking the counter as it
  is.\<close>

definition propsBody_at ::
  "string \<Rightarrow> 's remote \<Rightarrow> number \<Rightarrow> jsval list \<Rightarrow> 's world \<Rightarrow> jsval list \<times> 's world" where
  "propsBody_at CONTRACT_ADDRESS remote i uniqueUsers w =
     (case lookup remote (propsRequest (Str CONTRACT_ADDRESS) i) w of
        (Inl e, w') \<Rightarrow> (uniqueUsers, w')
      | (Inr propsJSON, w') \<Rightarrow>
          (case propDataOf propsJSON of
             Inl e \<Rightarrow> (uniqueUsers, w')
           | Inr propData \<Rightarrow> (foldl set_add uniqueUsers (identitiesOf propData), w')))"

text \<open>\<open>for (let i = startIndex; i < totalProps; i++)\<close>\<close>

fun scanProps_fuel ::
  "nat \<Rightarrow> string \<Rightarrow> 's remote \<Rightarrow> number \<Rightarrow> number \<Rightarrow> jsval list \<Rightarrow> 's world
     \<Rightarrow> ('s world, jsval list \<times> 's world) run" where
  "scanProps_fuel 0 CONTRACT_ADDRESS remote i totalProps uniqueUsers w = OutOfFuel w"
| "scanProps_fuel (Suc fuel) CONTRACT_ADDRESS remote i totalProps uniqueUsers w =
     (if double_lt i totalProps then
        (case propsBody_at CONTRACT_ADDRESS remote i uniqueUsers w of
           (uniqueUsers', w') \<Rightarrow>
             scanProps_fuel fuel CONTRACT_ADDRESS remote (double_succ i) totalProps uniqueUsers' w')
      else Returned (uniqueUsers, w))"

definition loadLeaderboard_try_fuel ::
  "nat \<Rightarrow> int \<Rightarrow> string \<Rightarrow> 's remote \<Rightarrow> LeaderboardPage \<Rightarrow> 's world
     \<Rightarrow> ('s world, (error + unit) \<times> LeaderboardPage \<times> 's world) run" where
  "loadLeaderboard_try_fuel fuel window CONTRACT_ADDRESS remote page w =
     (case lookup remote (counterRequest (Str CONTRACT_ADDRESS)) w of
        (Inl e, w1) \<Rightarrow> Returned (Inl e, page, w1)
      | (Inr counterJSON, w1) \<Rightarrow>
          (case totalPropsOf counterJSON of
             Inl e \<Rightarrow> Returned (Inl e, page, w1)
           | Inr totalProps \<Rightarrow>
               if totalProps = Num 0 then Returned (Inr (), page\<lparr>isLoading := False\<rparr>, w1)
               else
                 let limit = double_min (Num window) totalProps;
                     startIndex = double_max (Num 0) (double_sub totalProps limit)
                 in (case scanProps_fuel fuel CONTRACT_ADDRESS remote startIndex totalProps [] w1 of
                       OutOfFuel w2 \<Rightarrow> OutOfFuel w2
                     | Returned (uniqueUsers, w2) \<Rightarrow>
                         if uniqueUsers = [] then Returned (Inr (), page\<lparr>isLoading := False\<rparr>, w2)
                         else
                           let (userStats, w3) = fetchStats remote uniqueUsers [] w2
                           in Returned (Inr (), page\<lparr>topUsers := rankUsers userStats\<rparr>, w3))))"

definition loadLeaderboardWindow_fuel ::
  "nat \<Rightarrow> int \<Rightarrow> string \<Rightarrow> 's remote \<Rightarrow> LeaderboardPage \<Rightarrow> 's world
     \<Rightarrow> ('s world, (error + unit) \<times> LeaderboardPage \<times> 's world) run" where
  "loadLeaderboardWindow_fuel fuel window CONTRACT_ADDRESS remote page w =
     (case loadLeaderboard_try_fuel fuel window CONTRACT_ADDRESS remote page w of
        OutOfFuel w' \<Rightarrow> OutOfFuel w'
      | Returned (r, page', w') \<Rightarrow> Returned (Inr (), page'\<lparr>isLoading := False\<rparr>, w'))"

definition loadLeaderboard_fuel ::
  "nat \<Rightarrow> string \<Rightarrow> 's remote \<Rightarrow> LeaderboardPage \<Rightarrow> 's world
     \<Rightarrow> ('s world, (error + unit) \<times> LeaderboardPage \<times> 's world) run" where
  "loadLeaderboard_fuel fuel = loadLeaderboardWindow_fuel fuel 10"

text \<open>The history scan: the item for index \<open>i\<close> and the loop body, the index being
  the counter as it is.\<close>

definition scanItem_at :: "TabType \<Rightarrow> string \<Rightarrow> number \<Rightarrow> jsval \<Rightarrow> error + HistoryItem option" where
  "scanItem_at activeTab userAddress i propsJSON =
     (case propDataOf propsJSON of
        Inl e \<Rightarrow> Inl e
      | Inr propData \<Rightarrow>
          if truthy propData then
            (case fieldValue propData ''giver'' of
               Inl e \<Rightarrow> Inl e
             | Inr giver \<Rightarrow>
                 (case fieldValue propData ''receiver'' of
                    Inl e \<Rightarrow> Inl e
                  | Inr receiver \<Rightarrow>
                      let isGiver = (giver = Str userAddress);
                          isReceiver = (receiver = Str userAddress)
                      in if activeTab = TabGiven \<and> isGiver then
                           map_sum id Some (itemWith i ItemGiven giver receiver propData)
                         else if activeTab = TabAll \<and> (isGiver \<or> isReceiver) then
                           map_sum id Some
                             (itemWith i (if isReceiver then ItemReceived else ItemGiven)
                                giver receiver propData)
                         else Inr None))
          else Inr None)"

definition historyBody_at ::
  "TabType \<Rightarrow> string \<Rightarrow> 's remote \<Rightarrow> number \<Rightarrow> HistoryItem list \<Rightarrow> 's world
     \<Rightarrow> HistoryItem list \<times> 's world" where
  "historyBody_at activeTab userAddress remote i items w =
     (case lookup remote (propsRequest (Str userAddress) i) w of
        (Inl e, w') \<Rightarrow> (items, w')
      | (Inr propsJSON, w') \<Rightarrow>
          (case scanItem_at activeTab userAddress i propsJSON of
             Inr (Some item) \<Rightarrow> (items @ [item], w')
           | Inr None \<Rightarrow> (items, w')
           | Inl e \<Rightarrow> (items, w')))"

text \<open>\<open>for (let i = totalProps - 1; i >= startIndex; i--)\<close>\<close>

fun scanHistory_fuel ::
  "nat \<Rightarrow> TabType \<Rightarrow> string \<Rightarrow> 's remote \<Rightarrow> number \<Rightarrow> number \<Rightarrow> HistoryItem list \<Rightarrow> 's world
     \<Rightarrow> ('s world, HistoryItem list \<times> 's world) run" where
  "scanHistory_fuel 0 activeTab userAddress remote i startIndex items w = OutOfFuel w"
| "scanHistory_fuel (Suc fuel) activeTab userAddress remote i startIndex items w =
     (if double_ge i startIndex then
        (case historyBody_at activeTab userAddress remote i items w of
           (items', w') \<Rightarrow>
             scanHistory_fuel fuel activeTab userAddress remote (double_pred i) startIndex items' w')
      else Returned (items, w))"

definition loadHistory_try_fuel ::
  "nat \<Rightarrow> int \<Rightarrow> TabType \<Rightarrow> string \<Rightarrow> 's remote \<Rightarrow> 's world
     \<Rightarrow> ('s world, (error + HistoryItem list) \<times> 's world) run" where
  "loadHistory_try_fuel fuel window activeTab userAddress remote w =
     (if activeTab = TabReceived then
        (case lookup remote (historyRequest userAddress) w of
           (Inl e, w1) \<Rightarrow> Returned (Inl e, w1)
         | (Inr historyJSON, w1) \<Rightarrow>
             (case recentIdsOf historyJSON of
                Inl e \<Rightarrow> Returned (Inl e, w1)
              | Inr recentIds \<Rightarrow>
                  (case fetchReceived userAddress remote recentIds [] w1 of
                     (items, w2) \<Rightarrow> Returned (Inr items, w2))))
      else
        (case lookup remote (counterRequest (Str userAddress)) w of
           (Inl e, w1) \<Rightarrow> Returned (Inl e, w1)
         | (Inr counterJSON, w1) \<Rightarrow>
             (case totalPropsOf counterJSON of
                Inl e \<Rightarrow> Returned (Inl e, w1)
              | Inr totalProps \<Rightarrow>
                  let limit = double_min (Num window) totalProps;
                      startIndex = double_max (Num 0) (double_sub totalProps limit)
                  in (case scanHistory_fuel fuel activeTab userAddress remote
                             (double_sub totalProps (Num 1)) startIndex [] w1 of
                        OutOfFuel w2 \<Rightarrow> OutOfFuel w2
                      | Returned (items, w2) \<Rightarrow> Returned (Inr items, w2)))))"

definition loadHistoryWindow_fuel ::
  "nat \<Rightarrow> int \<Rightarrow> TabType \<Rightarrow> string \<Rightarrow> 's remote \<Rightarrow> HistoryPage \<Rightarrow> 's world
     \<Rightarrow> ('s world, (error + unit) \<times> HistoryPage \<times> 's world) run" where
  "loadHistoryWindow_fuel fuel window activeTab userAddress remote page w =
     (case loadHistory_try_fuel fuel window activeTab userAddress remote w of
        OutOfFuel w' \<Rightarrow> OutOfFuel w'
      | Returned (Inl e, w') \<Rightarrow>
          Returned (Inr (), page\<lparr>historyItems := [], historyLoading := False\<rparr>, w')
      | Returned (Inr items, w') \<Rightarrow>
          Returned (Inr (), page\<lparr>historyItems := items, historyLoading := False\<rparr>, w'))"

definition loadHistory_fuel ::
  "nat \<Rightarrow> TabType \<Rightarrow> string \<Rightarrow> 's remote \<Rightarrow> HistoryPage \<Rightarrow> 's world
     \<Rightarrow> ('s world, (error + unit) \<times> HistoryPage \<times> 's world) run" where
  "loadHistory_fuel fuel = loadHistoryWindow_fuel fuel 50"

section \<open>Reading a run\<close>

text \<open>The lookups issued between two worlds of a run, and among requests the
  per-index ones and the per-identity ones.\<close>

definition issued :: "'s world \<Rightarrow> 's world \<Rightarrow> request list" where
  "issued w w' = drop (length (lookups w)) (lookups w')"

definition perIndex :: "request list \<Rightarrow> request list" where
  "perIndex qs = filter (\<lambda>q. functionName q = ''get-props-by-id'') qs"

definition perIdentity :: "request list \<Rightarrow> request list" where
  "perIdentity qs = filter (\<lambda>q. functionName q = ''get-user-stats'') qs"

text \<open>What the result of one lookup contributes: on the leaderboard the identities of
  the record, then the statistics of an identity; on the history page the item kept for
  index \<open>i\<close>. A lookup that was rejected, and a response whose reading throws,
  contribute nothing.\<close>

definition collected :: "error + jsval \<Rightarrow> jsval list" where
  "collected r =
     (case r of
        Inl e \<Rightarrow> []
      | Inr propsJSON \<Rightarrow>
          (case propDataOf propsJSON of Inl e \<Rightarrow> [] | Inr propData \<Rightarrow> identitiesOf propData))"

definition statsFrom :: "jsval \<Rightarrow> error + jsval \<Rightarrow> UserStats option" where
  "statsFrom addr r =
     (case r of
        Inl e \<Rightarrow> None
      | Inr statsJSON \<Rightarrow> (case statsOf addr statsJSON of Inl e \<Rightarrow> None | Inr u \<Rightarrow> u))"

definition kept :: "TabType \<Rightarrow> string \<Rightarrow> int \<Rightarrow> error + jsval \<Rightarrow> HistoryItem option" where
  "kept activeTab userAddress i r =
     (case r of
        Inl e \<Rightarrow> None
      | Inr propsJSON \<Rightarrow>
          (case scanItem activeTab userAddress i propsJSON of Inl e \<Rightarrow> None | Inr item \<Rightarrow> item))"

definition keptReceived :: "number \<Rightarrow> error + jsval \<Rightarrow> HistoryItem option" where
  "keptReceived i r =
     (case r of
        Inl e \<Rightarrow> None
      | Inr propsJSON \<Rightarrow>
          (case receivedItem i propsJSON of Inl e \<Rightarrow> None | Inr item \<Rightarrow> item))"

text \<open>"Received": the indices of the wrappers whose \<open>value\<close> can be read (the read
  throws on an \<open>undefined\<close> or \<open>null\<close> entry, before any lookup).\<close>

definition readableIds :: "jsval list \<Rightarrow> number list" where
  "readableIds idWrappers =
     map (\<lambda>idWrapper. parseInt (optProp idWrapper ''value''))
       (filter (\<lambda>idWrapper. \<not> isl (getProp idWrapper ''value'')) idWrappers)"

text \<open>The scan windows: the indices from \<open>max(0, T - limit)\<close> up to \<open>T - 1\<close>.\<close>

definition scanWindow :: "int \<Rightarrow> int \<Rightarrow> int list" where
  "scanWindow limit T = [max 0 (T - limit)..T - 1]"

text \<open>A decoded record with all five fields readable: the identities and the three
  other values as the pages read them.\<close>

definition wellFormed :: "jsval \<Rightarrow> jsval \<Rightarrow> jsval \<Rightarrow> jsval \<Rightarrow> jsval \<Rightarrow> jsval \<Rightarrow> bool" where
  "wellFormed propsJSON giver receiver a m t =
     (case propDataOf propsJSON of
        Inl e \<Rightarrow> False
      | Inr propData \<Rightarrow>
          truthy propData
          \<and> fieldValue propData ''giver'' = Inr giver
          \<and> fieldValue propData ''receiver'' = Inr receiver
          \<and> fieldValue propData ''amount'' = Inr a
          \<and> fieldValue propData ''message'' = Inr m
          \<and> fieldValue propData ''timestamp'' = Inr t)"



section \<open>Sample responses\<close>

text \<open>Decoded responses in the shape \<open>cvToJSON\<close> gives them, and a remote without
  state that answers by function name; they serve as concrete inputs.\<close>

definition uintJSON :: "string \<Rightarrow> jsval" where
  "uintJSON digits = Obj [(''type'', Str ''uint''), (''value'', Str digits)]"

definition principalJSON :: "string \<Rightarrow> jsval" where
  "principalJSON a = Obj [(''type'', Str ''principal''), (''value'', Str a)]"

definition stringJSON :: "string \<Rightarrow> jsval" where
  "stringJSON m = Obj [(''type'', Str ''(string-utf8)''), (''value'', Str m)]"

definition someJSON :: "jsval \<Rightarrow> jsval" where
  "someJSON v = Obj [(''type'', Str ''(optional)''), (''value'', v)]"

definition propsJSON :: "string \<Rightarrow> string \<Rightarrow> string \<Rightarrow> string \<Rightarrow> string \<Rightarrow> jsval" where
  "propsJSON giver receiver a m t =
     someJSON (Obj [(''type'', Str ''(tuple)''),
       (''value'', Obj [(''giver'', principalJSON giver), (''receiver'', principalJSON receiver),
                        (''amount'', uintJSON a), (''message'', stringJSON m),
                        (''timestamp'', uintJSON t)])])"

definition statsJSON :: "string \<Rightarrow> string \<Rightarrow> jsval" where
  "statsJSON received given =
     Obj [(''type'', Str ''(response)''),
       (''value'', Obj [(''type'', Str ''(tuple)''),
          (''value'', Obj [(''props-received'', uintJSON received),
                           (''props-given'', uintJSON given)])])]"

definition listJSON :: "string list \<Rightarrow> jsval" where
  "listJSON ids =
     Obj [(''type'', Str ''(response)''),
       (''value'', Obj [(''type'', Str ''(list)''), (''value'', Arr (map uintJSON ids))])]"

definition counterJSON :: "string \<Rightarrow> jsval" where
  "counterJSON digits = Obj [(''type'', Str ''(response)''), (''value'', uintJSON digits)]"

definition dispatch ::
  "error + jsval \<Rightarrow> (number \<Rightarrow> error + jsval) \<Rightarrow> (jsval \<Rightarrow> error + jsval) \<Rightarrow> error + jsval
     \<Rightarrow> unit remote" where
  "dispatch counter props stats history req s =
     (if functionName req = ''get-current-props-id'' then counter
      else if functionName req = ''get-props-by-id'' then
        (case functionArgs req of [UintCV i] \<Rightarrow> props i | other \<Rightarrow> Inl (RemoteError ''arguments''))
      else if functionName req = ''get-user-stats'' then
        (case functionArgs req of [PrincipalCV a] \<Rightarrow> stats a | other \<Rightarrow> Inl (RemoteError ''arguments''))
      else if functionName req = ''get-user-history'' then history
      else Inl (RemoteError ''function''),
      s)"

text \<open>A sample chain of four records: the lookup of index 1 times out, the identities
  \<open>SPA\<close>, \<open>SPB\<close>, \<open>SPC\<close> each occur twice, and \<open>SPA\<close> and \<open>SPB\<close> have received the
  same number of props.\<close>

definition sampleProps :: "number \<Rightarrow> error + jsval" where
  "sampleProps i =
     (if i = Num 0 then Inr (propsJSON ''SPA'' ''SPB'' ''1'' ''thanks'' ''100'')
      else if i = Num 1 then Inl (RemoteError ''timeout'')
      else if i = Num 2 then Inr (propsJSON ''SPC'' ''SPA'' ''2'' ''great'' ''120'')
      else if i = Num 3 then Inr (propsJSON ''SPB'' ''SPC'' ''1'' ''nice'' ''130'')
      else Inr (Obj [(''type'', Str ''(optional none)''), (''value'', Null)]))"

definition sampleStats :: "jsval \<Rightarrow> error + jsval" where
  "sampleStats a =
     (if a = Str ''SPA'' then Inr (statsJSON ''5'' ''1'')
      else if a = Str ''SPB'' then Inr (statsJSON ''5'' ''1'')
      else if a = Str ''SPC'' then Inr (statsJSON ''7'' ''2'')
      else Inl (RemoteError ''unknown''))"



definition sampleRemote :: "unit remote" where
  "sampleRemote =
     dispatch (Inr (counterJSON ''4'')) sampleProps sampleStats (Inr (listJSON [''0'', ''2'', ''3'']))"

definition world0 :: "unit world" where
  "world0 = \<lparr>remote_state = (), lookups = []\<rparr>"

section \<open>Rounding and parsing\<close>

lemma shiftOf_small: "n < 2 ^ 53 \<Longrightarrow> shiftOf n = 0"
  by (subst shiftOf.simps) simp

lemma roundNat_small: "n < 2 ^ 53 \<Longrightarrow> roundNat n = n"
  by (simp add: roundNat_def shiftOf_small)

lemma shiftOf_large: "2 ^ 53 \<le> n \<Longrightarrow> shiftOf n = Suc (shiftOf (n div 2))"
  by (subst shiftOf.simps) simp

lemma shiftOf_2_53: "shiftOf 9007199254740992 = 1"
  by (simp add: shiftOf_large shiftOf_small)

lemma roundNat_2_53: "roundNat (2 ^ 53) = 2 ^ 53"
  by (simp add: roundNat_def Let_def shiftOf_2_53)

lemma roundNat_exact: "n \<le> 2 ^ 53 \<Longrightarrow> roundNat n = n"
  using roundNat_small [of n] roundNat_2_53 by (cases "n = 2 ^ 53") auto

lemma small_finite: "n \<le> 2 ^ 53 \<Longrightarrow> \<not> overflow \<le> n"
proof -
  assume "n \<le> 2 ^ 53"
  moreover have "(2::nat) ^ 53 < 2 ^ 1024" by (rule power_strict_increasing) simp_all
  ultimately show ?thesis unfolding overflow_def by linarith
qed

lemma roundDouble_exact: "\<bar>n\<bar> \<le> 2 ^ 53 \<Longrightarrow> roundDouble n = Num n"
proof -
  assume a: "\<bar>n\<bar> \<le> 2 ^ 53"
  then have "nat \<bar>n\<bar> \<le> 2 ^ 53" by (simp add: nat_le_iff)
  then have r: "roundNat (nat \<bar>n\<bar>) = nat \<bar>n\<bar>" and f: "\<not> overflow \<le> nat \<bar>n\<bar>"
    by (simp_all add: roundNat_exact small_finite)
  show ?thesis
    unfolding roundDouble_def Let_def r using f by auto
qed

lemma shiftOf_quotient: "0 < n \<Longrightarrow> 0 < n div 2 ^ shiftOf n"
proof (induction n rule: shiftOf.induct)
  case (1 n)
  show ?case
  proof (cases "n < 2 ^ 53")
    case True
    with "1.prems" show ?thesis by (simp add: shiftOf_small)
  next
    case False
    then have "0 < n div 2" by simp
    with "1.IH" False have "0 < (n div 2) div 2 ^ shiftOf (n div 2)" by simp
    moreover have "shiftOf n = Suc (shiftOf (n div 2))"
      using False by (subst shiftOf.simps) simp
    ultimately show ?thesis by (simp add: div_mult2_eq)
  qed
qed

lemma roundNat_positive: "0 < n \<Longrightarrow> 0 < roundNat n"
  using shiftOf_quotient [of n] by (simp add: roundNat_def Let_def)

lemma positive_roundDouble: "positive (roundDouble n) = (0 < n)"
proof (cases "n = 0")
  case True
  then show ?thesis by (simp add: roundDouble_exact)
next
  case False
  then have "0 < roundNat (nat \<bar>n\<bar>)" by (intro roundNat_positive) simp
  with False show ?thesis
    by (cases "n < 0") (simp_all add: roundDouble_def Let_def)
qed

lemma whiteLength_digit:
  "48 \<le> (of_char c :: nat) \<Longrightarrow> (of_char c :: nat) \<le> 57 \<Longrightarrow> whiteLength (c # s) = 0"
  by (auto simp: whiteLength_def split: list.splits)

lemma dropWhite_none: "whiteLength s = 0 \<Longrightarrow> dropWhite s = s"
  by (subst dropWhite.simps) simp

lemma dropWhite_some: "whiteLength s = Suc n \<Longrightarrow> dropWhite s = dropWhite (drop (Suc n) s)"
  by (subst dropWhite.simps) simp

lemma dropWhite_digit:
  "48 \<le> (of_char c :: nat) \<Longrightarrow> (of_char c :: nat) \<le> 57 \<Longrightarrow> dropWhite (c # s) = c # s"
  by (simp add: dropWhite_none whiteLength_digit)

lemma parseIntString_examples:
  "parseIntString ''12'' = Num 12"
  "parseIntString ''0'' = Num 0"
  "parseIntString ''  42'' = Num 42"
  "parseIntString [CHR 0xC2, CHR 0xA0, CHR ''7''] = Num 7"
  "parseIntString ''-0x1f'' = Num (-31)"
  by (simp_all add: parseIntString_def dropWhite_none dropWhite_some whiteLength_def
      parseDigits_def digitValue_def roundDouble_exact)

section \<open>Properties of robustFetch\<close>

lemma attempts_append: "attempts (xs @ ys) = attempts xs + attempts ys"
  by (induction xs rule: attempts.induct) auto

lemma delays_append: "delays (xs @ ys) = delays xs @ delays ys"
  by (induction xs rule: delays.induct) auto

lemma schedule_0: "schedule D i 0 = [Delay D, Attempt]"
  by (simp add: schedule_def)

lemma schedule_Suc:
  "schedule D i (Suc k) = [Delay D, Attempt, Delay (D * 2 ^ i)] @ schedule D (Suc i) k"
proof -
  have "[0..<Suc k] = 0 # map Suc [0..<k]"
    by (simp add: upt_conv_Cons map_Suc_upt del: upt_Suc)
  then show ?thesis
    by (simp add: schedule_def comp_def del: upt_Suc)
qed

lemma attempts_schedule: "attempts (schedule D i k) = Suc k"
  by (induction k arbitrary: i) (simp_all add: schedule_0 schedule_Suc)

lemma delays_schedule:
  "delays (schedule D i k) = concat (map (\<lambda>j. [D, D * 2 ^ (i + j)]) [0..<k]) @ [D]"
proof (induction k arbitrary: i)
  case 0
  show ?case by (simp add: schedule_0)
next
  case (Suc k)
  have "[0..<Suc k] = 0 # map Suc [0..<k]"
    by (simp add: upt_conv_Cons map_Suc_upt del: upt_Suc)
  then show ?case
    by (simp add: schedule_Suc Suc.IH comp_def del: upt_Suc)
qed

lemma outcome_0: "outcome fn s 0 = fst (fn s)"
  by (simp add: outcome_def)

lemma outcome_Suc: "outcome fn s (Suc n) = outcome fn (snd (fn s)) n"
  by (simp add: outcome_def)

lemma robustFetch_loop_succeeds:
  "\<lbrakk>0 \<le> i; i + int k < R; \<forall>j<k. isl (outcome fn s j); outcome fn s k = Inr v\<rbrakk>
   \<Longrightarrow> robustFetch_loop fn R D i s tr
        = (Resolved v, after fn s (Suc k), tr @ schedule D (nat i) k)"
proof (induction k arbitrary: i s tr)
  case 0
  obtain r s' where fs: "fn s = (r, s')" by (cases "fn s")
  with 0 have "r = Inr v" by (simp add: outcome_0)
  with 0 fs show ?case
    by (subst robustFetch_loop.simps) (simp add: schedule_0)
next
  case (Suc k)
  obtain r s' where fs: "fn s = (r, s')" by (cases "fn s")
  from Suc.prems(3) have "isl (outcome fn s 0)" by blast
  with fs obtain e where r: "r = Inl e" by (cases r) (auto simp: outcome_0)
  have later: "\<forall>j<k. isl (outcome fn s' j)"
  proof (intro allI impI)
    fix j assume "j < k"
    then have "isl (outcome fn s (Suc j))" using Suc.prems(3) by simp
    then show "isl (outcome fn s' j)" by (simp add: outcome_Suc fs)
  qed
  have last: "outcome fn s' k = Inr v"
    using Suc.prems(4) by (simp add: outcome_Suc fs)
  have step: "robustFetch_loop fn R D (i + 1) s' (tr @ [Delay D, Attempt, Delay (D * 2 ^ nat i)])
      = (Resolved v, after fn s' (Suc k),
         (tr @ [Delay D, Attempt, Delay (D * 2 ^ nat i)]) @ schedule D (nat (i + 1)) k)"
    using Suc.prems(1,2) later last by (intro Suc.IH) auto
  have n: "nat (i + 1) = Suc (nat i)" using Suc.prems(1) by simp
  from Suc.prems(1,2) have "i < R" "i \<noteq> R - 1" by auto
  then show ?case
    by (subst robustFetch_loop.simps) (simp add: fs r step n schedule_Suc)
qed

lemma robustFetch_loop_exhausts:
  "\<lbrakk>0 \<le> i; i + int k = R - 1; \<forall>j\<le>k. isl (outcome fn s j)\<rbrakk>
   \<Longrightarrow> robustFetch_loop fn R D i s tr
        = (Rejected (projl (outcome fn s k)), after fn s (Suc k), tr @ schedule D (nat i) k)"
proof (induction k arbitrary: i s tr)
  case 0
  obtain r s' where fs: "fn s = (r, s')" by (cases "fn s")
  from 0 have "isl (outcome fn s 0)" by blast
  with fs obtain e where r: "r = Inl e" by (cases r) (auto simp: outcome_0)
  from 0 have "i < R" "i = R - 1" by auto
  then show ?case
    by (subst robustFetch_loop.simps) (simp add: fs r schedule_0 outcome_0)
next
  case (Suc k)
  obtain r s' where fs: "fn s = (r, s')" by (cases "fn s")
  from Suc.prems(3) have "isl (outcome fn s 0)" by blast
  with fs obtain e where r: "r = Inl e" by (cases r) (auto simp: outcome_0)
  have later: "\<forall>j\<le>k. isl (outcome fn s' j)"
  proof (intro allI impI)
    fix j assume "j \<le> k"
    then have "isl (outcome fn s (Suc j))" using Suc.prems(3) by simp
    then show "isl (outcome fn s' j)" by (simp add: outcome_Suc fs)
  qed
  have step: "robustFetch_loop fn R D (i + 1) s' (tr @ [Delay D, Attempt, Delay (D * 2 ^ nat i)])
      = (Rejected (projl (outcome fn s' k)), after fn s' (Suc k),
         (tr @ [Delay D, Attempt, Delay (D * 2 ^ nat i)]) @ schedule D (nat (i + 1)) k)"
    using Suc.prems(1,2) later by (intro Suc.IH) auto
  have n: "nat (i + 1) = Suc (nat i)" using Suc.prems(1) by simp
  from Suc.prems(1,2) have "i < R" "i \<noteq> R - 1" by auto
  then show ?case
    by (subst robustFetch_loop.simps) (simp add: fs r step n schedule_Suc outcome_Suc)
qed


section \<open>Structure of the scans\<close>

text \<open>Each loop is a pass over the results of its lookups, taken in order; each
  loader is its phases one after the other.\<close>

lemma lookup_lookups: "lookups (snd (lookup remote q w)) = lookups w @ [q]"
  by (simp add: lookup_def split: prod.splits)

lemma lookupAll_result:
  "lookupAll remote qs w = (rs, w') \<Longrightarrow> length rs = length qs \<and> lookups w' = lookups w @ qs"
proof (induction qs arbitrary: w rs w')
  case Nil
  then show ?case by simp
next
  case (Cons q qs)
  obtain r w1 where l: "lookup remote q w = (r, w1)" by (cases "lookup remote q w")
  obtain rs1 w2 where a: "lookupAll remote qs w1 = (rs1, w2)" by (cases "lookupAll remote qs w1")
  from l have "lookups w1 = lookups w @ [q]" using lookup_lookups [of remote q w] by simp
  moreover from Cons.IH [OF a] have "length rs1 = length qs" "lookups w2 = lookups w1 @ qs" by simp_all
  moreover from Cons.prems l a have "rs = r # rs1" "w' = w2" by simp_all
  ultimately show ?case by simp
qed

lemma lookupAll_lookups: "lookups (snd (lookupAll remote qs w)) = lookups w @ qs"
  using lookupAll_result [of remote qs w] by (cases "lookupAll remote qs w") simp

lemma lookupAll_length: "length (fst (lookupAll remote qs w)) = length qs"
  using lookupAll_result [of remote qs w] by (cases "lookupAll remote qs w") simp

lemma propsBody_eq:
  "propsBody CA remote i users w =
     (case lookup remote (propsRequest (Str CA) (Num i)) w of
        (r, w') \<Rightarrow> (foldl set_add users (collected r), w'))"
  by (simp add: propsBody_def collected_def split: prod.splits sum.splits)

lemma scanProps_eq:
  "scanProps CA remote i T users w =
     (case lookupAll remote (map (\<lambda>j. propsRequest (Str CA) (Num j)) [i..T - 1]) w of
        (rs, w') \<Rightarrow> (foldl set_add users (concat (map collected rs)), w'))"
proof (induction CA remote i T users w rule: scanProps.induct)
  case (1 CA remote i T users w)
  show ?case
  proof (cases "i < T")
    case False
    then show ?thesis by (subst scanProps.simps) simp
  next
    case True
    then have up: "[i..T - 1] = i # [i + 1..T - 1]" by (simp add: upto_rec1)
    obtain r w' where l: "lookup remote (propsRequest (Str CA) (Num i)) w = (r, w')"
      by (cases "lookup remote (propsRequest (Str CA) (Num i)) w")
    have b: "propsBody CA remote i users w = (foldl set_add users (collected r), w')"
      by (simp add: propsBody_eq l)
    show ?thesis
      using True "1.IH" [OF True b [symmetric]]
      by (subst scanProps.simps) (simp add: b up l split: prod.splits)
  qed
qed

lemma statsBody_eq:
  "statsBody remote a st w =
     (case lookup remote (statsRequest a) w of
        (r, w') \<Rightarrow> (st @ (case statsFrom a r of None \<Rightarrow> [] | Some u \<Rightarrow> [u]), w'))"
  by (simp add: statsBody_def statsFrom_def split: prod.splits sum.splits option.splits)

lemma fetchStats_eq:
  "fetchStats remote users st w =
     (case lookupAll remote (map statsRequest users) w of
        (ss, w') \<Rightarrow> (st @ List.map_filter (\<lambda>(a, r). statsFrom a r) (zip users ss), w'))"
proof (induction users arbitrary: st w)
  case Nil
  show ?case by (simp add: List.map_filter_simps)
next
  case (Cons a users)
  show ?case
    by (simp add: statsBody_eq Cons.IH List.map_filter_simps split: prod.splits option.splits)
qed

lemma historyBody_eq:
  "historyBody tab user remote i items w =
     (case lookup remote (propsRequest (Str user) (Num i)) w of
        (r, w') \<Rightarrow> (items @ (case kept tab user i r of None \<Rightarrow> [] | Some x \<Rightarrow> [x]), w'))"
  by (simp add: historyBody_def kept_def split: prod.splits sum.splits option.splits)

lemma scanHistory_eq:
  "scanHistory tab user remote i start items w =
     (case lookupAll remote (map (\<lambda>j. propsRequest (Str user) (Num j)) (rev [start..i])) w of
        (rs, w') \<Rightarrow>
          (items @ List.map_filter (\<lambda>(j, r). kept tab user j r) (zip (rev [start..i]) rs), w'))"
proof (induction tab user remote i start items w rule: scanHistory.induct)
  case (1 tab user remote i start items w)
  show ?case
  proof (cases "start \<le> i")
    case False
    then show ?thesis by (subst scanHistory.simps) (simp add: List.map_filter_simps)
  next
    case True
    then have up: "rev [start..i] = i # rev [start..i - 1]" by (simp add: upto_rec2)
    obtain r w' where l: "lookup remote (propsRequest (Str user) (Num i)) w = (r, w')"
      by (cases "lookup remote (propsRequest (Str user) (Num i)) w")
    have b: "historyBody tab user remote i items w
        = (items @ (case kept tab user i r of None \<Rightarrow> [] | Some x \<Rightarrow> [x]), w')"
      by (simp add: historyBody_eq l)
    show ?thesis
      using True "1.IH" [OF True b [symmetric]]
      by (subst scanHistory.simps)
         (simp add: b up l List.map_filter_simps split: prod.splits option.splits)
  qed
qed


lemma receivedBody_eq:
  "receivedBody user remote wr items w =
     (case getProp wr ''value'' of
        Inl e \<Rightarrow> (items, w)
      | Inr v \<Rightarrow>
          (case lookup remote (propsRequest (Str user) (parseInt v)) w of
             (r, w') \<Rightarrow>
               (items @ (case keptReceived (parseInt v) r of None \<Rightarrow> [] | Some x \<Rightarrow> [x]), w')))"
  by (simp add: receivedBody_def keptReceived_def split: prod.splits sum.splits option.splits)

lemma fetchReceived_eq:
  "fetchReceived user remote wrappers items w =
     (case lookupAll remote (map (propsRequest (Str user)) (readableIds wrappers)) w of
        (rs, w') \<Rightarrow>
          (items @ List.map_filter (\<lambda>(i, r). keptReceived i r) (zip (readableIds wrappers) rs), w'))"
proof (induction wrappers arbitrary: items w)
  case Nil
  show ?case by (simp add: readableIds_def List.map_filter_simps)
next
  case (Cons wr wrappers)
  show ?case
  proof (cases "getProp wr ''value''")
    case (Inl e)
    then have "readableIds (wr # wrappers) = readableIds wrappers"
      by (simp add: readableIds_def)
    then show ?thesis
      by (simp add: receivedBody_eq Inl Cons.IH)
  next
    case (Inr v)
    then have "readableIds (wr # wrappers) = parseInt v # readableIds wrappers"
      by (simp add: readableIds_def optProp_def)
    then show ?thesis
      by (simp add: receivedBody_eq Inr Cons.IH List.map_filter_simps
               split: prod.splits option.splits)
  qed
qed

lemma window_start: "max 0 (T - min L T) = max (0::int) (T - L)"
  by linarith

lemma loadLeaderboardWindow_counter_fails:
  "lookup remote (counterRequest (Str CA)) w = (Inl e, w1)
   \<Longrightarrow> loadLeaderboardWindow L CA remote page w = (Inr (), page\<lparr>isLoading := False\<rparr>, w1)"
  by (simp add: loadLeaderboardWindow_def loadLeaderboard_try_def)

lemma loadLeaderboardWindow_eq:
  assumes c: "lookup remote (counterRequest (Str CA)) w = (Inr c, w1)"
    and t: "totalPropsOf c = Inr (Num T)"
    and rs: "lookupAll remote (map (\<lambda>j. propsRequest (Str CA) (Num j)) (scanWindow L T)) w1 = (rs, w2)"
    and ss: "lookupAll remote (map statsRequest (foldl set_add [] (concat (map collected rs)))) w2
              = (ss, w3)"
  shows "loadLeaderboardWindow L CA remote page w =
           (Inr (),
            page\<lparr>topUsers :=
                   (if foldl set_add [] (concat (map collected rs)) = [] then topUsers page
                    else rankUsers (List.map_filter (\<lambda>(a, r). statsFrom a r)
                           (zip (foldl set_add [] (concat (map collected rs))) ss))),
                 isLoading := False\<rparr>,
            w3)"
proof (cases "T = 0")
  case True
  with rs have "rs = []" "w2 = w1" by (simp_all add: scanWindow_def)
  with ss have "w3 = w1" by simp
  with True c t \<open>rs = []\<close> show ?thesis
    by (simp add: loadLeaderboardWindow_def loadLeaderboard_try_def)
next
  case False
  let ?users = "foldl set_add [] (concat (map collected rs))"
  have scan: "scanProps CA remote (max 0 (T - L)) T [] w1 = (?users, w2)"
    using rs by (simp add: scanProps_eq scanWindow_def)
  show ?thesis
  proof (cases "?users = []")
    case True
    with ss have "w3 = w2" by simp
    with True False c t scan show ?thesis
      by (simp add: loadLeaderboardWindow_def loadLeaderboard_try_def window_start)
  next
    case nonempty: False
    have st: "fetchStats remote ?users [] w2
        = (List.map_filter (\<lambda>(a, r). statsFrom a r) (zip ?users ss), w3)"
      using ss by (simp add: fetchStats_eq)
    from nonempty False c t scan st show ?thesis
      by (simp add: loadLeaderboardWindow_def loadLeaderboard_try_def window_start)
  qed
qed

lemma loadLeaderboardWindow_NaN:
  assumes c: "lookup remote (counterRequest (Str CA)) w = (Inr c, w1)"
    and t: "totalPropsOf c = Inr NaN \<or> isl (totalPropsOf c)"
  shows "loadLeaderboardWindow L CA remote page w = (Inr (), page\<lparr>isLoading := False\<rparr>, w1)"
  using c t by (auto simp: loadLeaderboardWindow_def loadLeaderboard_try_def split: sum.splits)

lemma loadHistoryWindow_initial_fails:
  "lookup remote (if tab = TabReceived then historyRequest user else counterRequest (Str user)) w
     = (Inl e, w1)
   \<Longrightarrow> loadHistoryWindow L tab user remote page w
        = (Inr (), page\<lparr>historyItems := [], historyLoading := False\<rparr>, w1)"
  by (simp add: loadHistoryWindow_def loadHistory_try_def split: if_splits)

lemma loadHistoryWindow_scan_eq:
  assumes tab: "tab \<noteq> TabReceived"
    and c: "lookup remote (counterRequest (Str user)) w = (Inr c, w1)"
    and t: "totalPropsOf c = Inr (Num T)"
    and rs: "lookupAll remote (map (\<lambda>j. propsRequest (Str user) (Num j)) (rev (scanWindow L T))) w1
              = (rs, w2)"
  shows "loadHistoryWindow L tab user remote page w =
           (Inr (),
            page\<lparr>historyItems :=
                   List.map_filter (\<lambda>(j, r). kept tab user j r) (zip (rev (scanWindow L T)) rs),
                 historyLoading := False\<rparr>,
            w2)"
proof -
  have scan: "scanHistory tab user remote (T - 1) (max 0 (T - L)) [] w1
      = (List.map_filter (\<lambda>(j, r). kept tab user j r) (zip (rev (scanWindow L T)) rs), w2)"
    using rs by (simp add: scanHistory_eq scanWindow_def)
  from tab c t scan show ?thesis
    by (simp add: loadHistoryWindow_def loadHistory_try_def window_start)
qed

lemma loadHistoryWindow_received_eq:
  assumes h: "lookup remote (historyRequest user) w = (Inr h, w1)"
    and ids: "recentIdsOf h = Inr wrappers"
    and rs: "lookupAll remote (map (propsRequest (Str user)) (readableIds wrappers)) w1 = (rs, w2)"
  shows "loadHistoryWindow L TabReceived user remote page w =
           (Inr (),
            page\<lparr>historyItems :=
                   List.map_filter (\<lambda>(i, r). keptReceived i r) (zip (readableIds wrappers) rs),
                 historyLoading := False\<rparr>,
            w2)"
  using h ids rs by (simp add: loadHistoryWindow_def loadHistory_try_def fetchReceived_eq)

lemma lookup_first_attempt:
  "remote req (remote_state w) = (Inr v, s')
   \<Longrightarrow> lookup remote req w = (Inr v, \<lparr>remote_state = s', lookups = lookups w @ [req]\<rparr>)"
  by (simp add: lookup_def robustFetch_def robustFetch_loop.simps)

lemma lookup_exhausted:
  assumes "\<forall>j\<le>2. isl (outcome (remote req) (remote_state w) j)"
  shows "lookup remote req w
           = (Inl (projl (outcome (remote req) (remote_state w) 2)),
              \<lparr>remote_state = after (remote req) (remote_state w) 3, lookups = lookups w @ [req]\<rparr>)"
proof -
  have "robustFetch_loop (remote req) 3 500 0 (remote_state w) []
      = (Rejected (projl (outcome (remote req) (remote_state w) 2)),
         after (remote req) (remote_state w) (Suc 2), [] @ schedule 500 (nat 0) 2)"
    using assms by (intro robustFetch_loop_exhausts) auto
  then show ?thesis
    by (simp add: lookup_def robustFetch_def eval_nat_numeral)
qed

lemma lookup_stateless_fails:
  assumes "\<And>s. remote req s = (Inl e, s)"
  shows "lookup remote req w = (Inl e, w\<lparr>lookups := lookups w @ [req]\<rparr>)"
proof -
  have a: "after (remote req) s n = s" for s n
    by (induction n arbitrary: s) (simp_all add: assms)
  have "\<forall>j\<le>2. isl (outcome (remote req) (remote_state w) j)"
    by (simp add: outcome_def a assms)
  from lookup_exhausted [of remote req w, OF this] show ?thesis
    by (simp add: outcome_def a assms)
qed

text \<open>A lookup is rejected exactly when the remote call fails on all three
  attempts.\<close>

lemma lookup_resolves:
  assumes "k \<le> 2" "\<forall>j<k. isl (outcome (remote req) (remote_state w) j)"
    and "outcome (remote req) (remote_state w) k = Inr v"
  shows "lookup remote req w
           = (Inr v, \<lparr>remote_state = after (remote req) (remote_state w) (Suc k),
                      lookups = lookups w @ [req]\<rparr>)"
proof -
  have "robustFetch_loop (remote req) 3 500 0 (remote_state w) []
      = (Resolved v, after (remote req) (remote_state w) (Suc k), [] @ schedule 500 (nat 0) k)"
    using assms by (intro robustFetch_loop_succeeds) auto
  then show ?thesis
    by (simp add: lookup_def robustFetch_def)
qed

lemma lookup_rejected_iff:
  "isl (fst (lookup remote req w)) \<longleftrightarrow> (\<forall>j\<le>2. isl (outcome (remote req) (remote_state w) j))"
proof
  assume all: "\<forall>j\<le>2. isl (outcome (remote req) (remote_state w) j)"
  from lookup_exhausted [of remote req w, OF all] show "isl (fst (lookup remote req w))"
    by simp
next
  assume rej: "isl (fst (lookup remote req w))"
  show "\<forall>j\<le>2. isl (outcome (remote req) (remote_state w) j)"
  proof (rule ccontr)
    assume "\<not> (\<forall>j\<le>2. isl (outcome (remote req) (remote_state w) j))"
    then have ex: "\<exists>j. j \<le> 2 \<and> \<not> isl (outcome (remote req) (remote_state w) j)" by blast
    define k where "k = (LEAST j. j \<le> 2 \<and> \<not> isl (outcome (remote req) (remote_state w) j))"
    from ex have k: "k \<le> 2 \<and> \<not> isl (outcome (remote req) (remote_state w) k)"
      unfolding k_def by (rule LeastI_ex)
    have before: "\<forall>j<k. isl (outcome (remote req) (remote_state w) j)"
    proof (intro allI impI)
      fix j assume "j < k"
      then have "\<not> (j \<le> 2 \<and> \<not> isl (outcome (remote req) (remote_state w) j))"
        unfolding k_def by (rule not_less_Least)
      with \<open>j < k\<close> k show "isl (outcome (remote req) (remote_state w) j)" by auto
    qed
    from k obtain v where v: "outcome (remote req) (remote_state w) k = Inr v"
      by (cases "outcome (remote req) (remote_state w) k") auto
    from k have "k \<le> 2" by simp
    from lookup_resolves [of k remote req w v, OF this before v] rej show False by simp
  qed
qed



lemma issued_after:
  "lookups w' = lookups w @ qs \<Longrightarrow> issued w w' = qs"
  by (simp add: issued_def)

lemma perIndex_props: "perIndex (map (\<lambda>j. propsRequest a (f j)) js) = map (\<lambda>j. propsRequest a (f j)) js"
  by (induction js) (simp_all add: perIndex_def propsRequest_def)

lemma perIndex_stats: "perIndex (map statsRequest us) = []"
  by (induction us) (simp_all add: perIndex_def statsRequest_def)

lemma perIdentity_props: "perIdentity (map (\<lambda>j. propsRequest a (f j)) js) = []"
  by (induction js) (simp_all add: perIdentity_def propsRequest_def)

lemma perIdentity_stats: "perIdentity (map statsRequest us) = map statsRequest us"
  by (induction us) (simp_all add: perIdentity_def statsRequest_def)

lemma perIndex_append: "perIndex (xs @ ys) = perIndex xs @ perIndex ys"
  by (simp add: perIndex_def)

lemma perIdentity_append: "perIdentity (xs @ ys) = perIdentity xs @ perIdentity ys"
  by (simp add: perIdentity_def)

lemma perIndex_counter: "perIndex [counterRequest a] = []" "perIdentity [counterRequest a] = []"
  by (simp_all add: perIndex_def perIdentity_def counterRequest_def)

lemma perIndex_history: "perIndex [historyRequest a] = []"
  by (simp_all add: perIndex_def historyRequest_def)

section \<open>Retry behaviour\<close>

lemma robustFetch_loop_no_budget:
  "R \<le> i \<Longrightarrow> robustFetch_loop fn R D i s tr = (ResolvedUndefined, s, tr)"
  by (subst robustFetch_loop.simps) simp

text \<open>
  Claim C1, as amended. An operation that fails exactly \<open>k\<close> times (\<open>k < R\<close>) and then
  succeeds: \<open>robustFetch\<close> resolves with the success value after exactly \<open>k+1\<close> calls of
  the operation. One that always fails, with \<open>R \<ge> 1\<close>: exactly \<open>R\<close> calls, and the
  rejection of the last one is propagated. The delays are \<open>D\<close> before every attempt and
  \<open>D * 2^i\<close> after failed attempt \<open>i\<close> when another attempt follows: in order
  \<open>D, D*2^0, D, D*2^1, D, ..., D\<close>.
\<close>

theorem robustFetch_retries_then_settles:
  "(int k < R \<and> (\<forall>j<k. isl (outcome fn s j)) \<and> outcome fn s k = Inr v \<longrightarrow>
      robustFetch fn R D s = (Resolved v, after fn s (Suc k), schedule D 0 k)
      \<and> attempts (snd (snd (robustFetch fn R D s))) = k + 1
      \<and> delays (snd (snd (robustFetch fn R D s)))
          = concat (map (\<lambda>j. [D, D * 2 ^ j]) [0..<k]) @ [D])
   \<and> (1 \<le> R \<and> (\<forall>j. isl (outcome fn s j)) \<longrightarrow>
      robustFetch fn R D s
        = (Rejected (projl (outcome fn s (nat R - 1))), after fn s (nat R), schedule D 0 (nat R - 1))
      \<and> attempts (snd (snd (robustFetch fn R D s))) = nat R
      \<and> delays (snd (snd (robustFetch fn R D s)))
          = concat (map (\<lambda>j. [D, D * 2 ^ j]) [0..<nat R - 1]) @ [D])"
proof (intro conjI impI)
  assume h: "int k < R \<and> (\<forall>j<k. isl (outcome fn s j)) \<and> outcome fn s k = Inr v"
  then have run: "robustFetch fn R D s = (Resolved v, after fn s (Suc k), schedule D 0 k)"
    using robustFetch_loop_succeeds [of 0 k R fn s v D "[]"] by (simp add: robustFetch_def)
  show "robustFetch fn R D s = (Resolved v, after fn s (Suc k), schedule D 0 k)"
    by (rule run)
  show "attempts (snd (snd (robustFetch fn R D s))) = k + 1"
    by (simp add: run attempts_schedule)
  show "delays (snd (snd (robustFetch fn R D s))) = concat (map (\<lambda>j. [D, D * 2 ^ j]) [0..<k]) @ [D]"
    by (simp add: run delays_schedule)
next
  assume h: "1 \<le> R \<and> (\<forall>j. isl (outcome fn s j))"
  define k where "k = nat R - 1"
  from h have k: "0 + int k = R - 1" "Suc k = nat R" by (auto simp: k_def)
  from h have "\<forall>j\<le>k. isl (outcome fn s j)" by blast
  then have run: "robustFetch fn R D s
      = (Rejected (projl (outcome fn s k)), after fn s (nat R), schedule D 0 k)"
    using robustFetch_loop_exhausts [of 0 k R fn s D "[]"] k by (simp add: robustFetch_def)
  show "robustFetch fn R D s
      = (Rejected (projl (outcome fn s (nat R - 1))), after fn s (nat R), schedule D 0 (nat R - 1))"
    using run by (simp add: k_def)
  show "attempts (snd (snd (robustFetch fn R D s))) = nat R"
    by (simp add: run attempts_schedule k)
  show "delays (snd (snd (robustFetch fn R D s)))
          = concat (map (\<lambda>j. [D, D * 2 ^ j]) [0..<nat R - 1]) @ [D]"
    using run by (simp add: delays_schedule k_def)
qed

theorem robustFetch_retries_then_settles_witness:
  "robustFetch (scripted (\<lambda>n. if n < 2 then Inl TypeError else Inr (7::nat))) 3 500 0
     = (Resolved 7, 3,
        [Delay 500, Attempt, Delay 500, Delay 500, Attempt, Delay 1000, Delay 500, Attempt])
   \<and> robustFetch (scripted (\<lambda>n. (Inl (RemoteError ''rate limit'') :: error + nat))) 3 500 0
     = (Rejected (RemoteError ''rate limit''), 3,
        [Delay 500, Attempt, Delay 500, Delay 500, Attempt, Delay 1000, Delay 500, Attempt])"
proof -
  let ?f = "scripted (\<lambda>n. if n < 2 then Inl TypeError else Inr (7::nat))"
  let ?g = "scripted (\<lambda>n. (Inl (RemoteError ''rate limit'') :: error + nat))"
  have af: "after ?f 0 n = n" for n
  proof -
    have "after ?f m n = m + n" for m
      by (induction n arbitrary: m) (simp_all add: scripted_def)
    then show ?thesis by simp
  qed
  have ag: "after ?g 0 n = n" for n
  proof -
    have "after ?g m n = m + n" for m
      by (induction n arbitrary: m) (simp_all add: scripted_def)
    then show ?thesis by simp
  qed
  have h1: "int 2 < 3 \<and> (\<forall>j<2. isl (outcome ?f 0 j)) \<and> outcome ?f 0 2 = Inr 7"
    by (simp add: outcome_def af scripted_def)
  have h2: "(1::int) \<le> 3 \<and> (\<forall>j. isl (outcome ?g 0 j))"
    by (simp add: outcome_def ag scripted_def)
  have s2: "schedule 500 0 2
      = [Delay 500, Attempt, Delay 500, Delay 500, Attempt, Delay 1000, Delay 500, Attempt]"
    by (simp add: schedule_def upt_conv_Cons)
  have o2: "projl (outcome ?g 0 n) = RemoteError ''rate limit''" for n
    by (simp add: outcome_def scripted_def)
  have n3: "nat 3 - 1 = 2" by simp
  from robustFetch_retries_then_settles [of 2 3 ?f 0 7 500] h1
  have a: "robustFetch ?f 3 500 0 = (Resolved 7, after ?f 0 (Suc 2), schedule 500 0 2)"
    by blast
  from robustFetch_retries_then_settles [of 2 3 ?g 0 7 500] h2
  have b: "robustFetch ?g 3 500 0
      = (Rejected (projl (outcome ?g 0 (nat 3 - 1))), after ?g 0 (nat 3), schedule 500 0 (nat 3 - 1))"
    by blast
  show ?thesis
    using a b by (simp add: af ag s2 o2)
qed

text \<open>
  Claim C1 as the specification words it gives the delays as \<open>D, D, D*2, D*4, ...\<close>.
  With two failures before the success (\<open>R = 3\<close>, \<open>D = 500\<close>) the code waits
  \<open>500, 500, 500, 1000, 500\<close>: the fixed delay comes before every attempt, not only
  before the first. And with \<open>R = 0\<close> an operation that always fails is not called
  and no failure is propagated.
\<close>

theorem robustFetch_delays_counterexample:
  "delays (snd (snd (robustFetch
      (scripted (\<lambda>n. if n < 2 then Inl TypeError else Inr (7::nat))) 3 500 0)))
     = [500, 500, 500, 1000, 500]
   \<and> spec_delays 500 2 = [500, 500, 1000]
   \<and> delays (snd (snd (robustFetch
      (scripted (\<lambda>n. if n < 2 then Inl TypeError else Inr (7::nat))) 3 500 0)))
     \<noteq> spec_delays 500 2
   \<and> robustFetch (scripted (\<lambda>n. (Inl TypeError :: error + nat))) 0 500 0
     = (ResolvedUndefined, 0, [])"
  by (simp add: robustFetch_def robustFetch_loop.simps scripted_def spec_delays_def upt_conv_Cons)

text \<open>
  Claim C10. With a retry count of 0 or less the loop body never runs: the promise
  resolves with \<open>undefined\<close>, the operation is not called, nothing is waited for and
  nothing is thrown.
\<close>

theorem robustFetch_no_retries:
  "R \<le> 0 \<Longrightarrow> robustFetch fn R D s = (ResolvedUndefined, s, [])"
  by (simp add: robustFetch_def robustFetch_loop_no_budget)

theorem robustFetch_no_retries_witness:
  "(0::int) \<le> 0 \<and>
   robustFetch (scripted (\<lambda>n. (Inl TypeError :: error + nat))) 0 500 5
     = (ResolvedUndefined, 5, [])"
  using robustFetch_no_retries [of 0 "scripted (\<lambda>n. (Inl TypeError :: error + nat))" 500 5]
  by simp

section \<open>Lookups issued by the loaders\<close>

lemma lookup_issued: "lookup remote q w = (r, w1) \<Longrightarrow> lookups w1 = lookups w @ [q]"
  using lookup_lookups [of remote q w] by simp

lemma leaderboard_issued:
  assumes c: "lookup remote (counterRequest (Str CA)) w = (Inr c, w1)"
    and t: "totalPropsOf c = Inr (Num T)"
    and rs: "lookupAll remote (map (\<lambda>j. propsRequest (Str CA) (Num j)) (scanWindow L T)) w1 = (rs, w2)"
  shows "issued w (snd (snd (loadLeaderboardWindow L CA remote page w)))
           = counterRequest (Str CA) # map (\<lambda>j. propsRequest (Str CA) (Num j)) (scanWindow L T)
               @ map statsRequest (foldl set_add [] (concat (map collected rs)))"
proof -
  let ?users = "foldl set_add [] (concat (map collected rs))"
  obtain ss w3 where ss: "lookupAll remote (map statsRequest ?users) w2 = (ss, w3)"
    by (cases "lookupAll remote (map statsRequest ?users) w2")
  have "lookups w3 = lookups w @ counterRequest (Str CA)
          # map (\<lambda>j. propsRequest (Str CA) (Num j)) (scanWindow L T) @ map statsRequest ?users"
    using lookup_issued [OF c] lookupAll_result [OF rs] lookupAll_result [OF ss] by simp
  then show ?thesis
    by (simp add: loadLeaderboardWindow_eq [OF c t rs ss] issued_def)
qed

lemma history_issued:
  assumes tab: "tab \<noteq> TabReceived"
    and c: "lookup remote (counterRequest (Str user)) w = (Inr c, w1)"
    and t: "totalPropsOf c = Inr (Num T)"
  shows "issued w (snd (snd (loadHistoryWindow L tab user remote page w)))
           = counterRequest (Str user)
               # map (\<lambda>j. propsRequest (Str user) (Num j)) (rev (scanWindow L T))"
proof -
  obtain rs w2 where
    rs: "lookupAll remote (map (\<lambda>j. propsRequest (Str user) (Num j)) (rev (scanWindow L T))) w1
          = (rs, w2)"
    by (cases "lookupAll remote (map (\<lambda>j. propsRequest (Str user) (Num j)) (rev (scanWindow L T))) w1")
  have "lookups w2 = lookups w @ counterRequest (Str user)
          # map (\<lambda>j. propsRequest (Str user) (Num j)) (rev (scanWindow L T))"
    using lookup_issued [OF c] lookupAll_result [OF rs] by simp
  then show ?thesis
    by (simp add: loadHistoryWindow_scan_eq [OF tab c t rs] issued_def)
qed

lemma scanWindow_set: "set (scanWindow L T) = {max 0 (T - L)..<T}"
  by (auto simp: scanWindow_def)

lemma scanWindow_length: "length (scanWindow (int L) (int T)) = min L T"
  by (simp add: scanWindow_def)

lemma totalPropsOf_counterJSON: "totalPropsOf (counterJSON ds) = Inr (parseIntString ds)"
  by (simp add: totalPropsOf_def counterJSON_def uintJSON_def optProp_def)

lemma parse12: "parseIntString ''12'' = Num 12"
  by (simp add: parseIntString_def dropWhite_none whiteLength_def parseDigits_def digitValue_def
      roundDouble_exact)

section \<open>Empty totals and failed initial lookups\<close>

lemma parseIntString_0: "parseIntString ''0'' = Num 0"
  by (simp add: parseIntString_def dropWhite_none whiteLength_def parseDigits_def digitValue_def
      roundDouble_exact)

lemma lookup_dispatch_counter:
  "lookup (dispatch (Inr c) props stats history) (counterRequest a) w
     = (Inr c, w\<lparr>lookups := lookups w @ [counterRequest a]\<rparr>)"
  by (rule trans [OF lookup_first_attempt [where s' = "()" and v = c]])
     (simp_all add: dispatch_def counterRequest_def)

lemma lookup_dispatch_counter_fails:
  "lookup (dispatch (Inl e) props stats history) (counterRequest a) w
     = (Inl e, w\<lparr>lookups := lookups w @ [counterRequest a]\<rparr>)"
  by (rule lookup_stateless_fails) (simp add: dispatch_def counterRequest_def)

text \<open>
  Claim C8. When the initial count lookup reports \<open>T = 0\<close>, the leaderboard loader and
  the history loader in its "given" and "all" modes complete normally with an empty
  report and issue no per-index lookup: the count lookup is the only one.
\<close>

theorem zero_total_is_empty_report:
  "(lookup remote (counterRequest (Str CA)) w = (Inr c, w1) \<and> totalPropsOf c = Inr (Num 0) \<longrightarrow>
      loadLeaderboard CA remote lpage w = (Inr (), lpage\<lparr>isLoading := False\<rparr>, w1)
      \<and> topUsers (fst (snd (loadLeaderboard CA remote LeaderboardPage_init w))) = []
      \<and> issued w w1 = [counterRequest (Str CA)]
      \<and> perIndex (issued w w1) = [])
   \<and> (tab \<noteq> TabReceived \<and> lookup remote (counterRequest (Str user)) w = (Inr c, w1)
        \<and> totalPropsOf c = Inr (Num 0) \<longrightarrow>
      loadHistory tab user remote hpage w
        = (Inr (), hpage\<lparr>historyItems := [], historyLoading := False\<rparr>, w1)
      \<and> issued w w1 = [counterRequest (Str user)]
      \<and> perIndex (issued w w1) = [])"
proof (intro conjI impI)
  assume h: "lookup remote (counterRequest (Str CA)) w = (Inr c, w1) \<and> totalPropsOf c = Inr (Num 0)"
  then have c: "lookup remote (counterRequest (Str CA)) w = (Inr c, w1)"
    and t: "totalPropsOf c = Inr (Num 0)" by simp_all
  have run: "loadLeaderboardWindow 10 CA remote p w = (Inr (), p\<lparr>isLoading := False\<rparr>, w1)" for p
    using loadLeaderboardWindow_eq [OF c t, of 10 "[]" w1 "[]" w1 p]
    by (simp add: scanWindow_def)
  show "loadLeaderboard CA remote lpage w = (Inr (), lpage\<lparr>isLoading := False\<rparr>, w1)"
    by (simp add: loadLeaderboard_def run)
  show "topUsers (fst (snd (loadLeaderboard CA remote LeaderboardPage_init w))) = []"
    by (simp add: loadLeaderboard_def run LeaderboardPage_init_def)
  show i: "issued w w1 = [counterRequest (Str CA)]"
    using lookup_issued [OF c] by (simp add: issued_def)
  show "perIndex (issued w w1) = []"
    by (simp add: i perIndex_counter)
next
  assume h: "tab \<noteq> TabReceived \<and> lookup remote (counterRequest (Str user)) w = (Inr c, w1)
        \<and> totalPropsOf c = Inr (Num 0)"
  then have tab: "tab \<noteq> TabReceived"
    and c: "lookup remote (counterRequest (Str user)) w = (Inr c, w1)"
    and t: "totalPropsOf c = Inr (Num 0)" by simp_all
  show "loadHistory tab user remote hpage w
        = (Inr (), hpage\<lparr>historyItems := [], historyLoading := False\<rparr>, w1)"
    using loadHistoryWindow_scan_eq [OF tab c t, of 50 "[]" w1 hpage]
    by (simp add: loadHistory_def scanWindow_def List.map_filter_simps)
  show i: "issued w w1 = [counterRequest (Str user)]"
    using lookup_issued [OF c] by (simp add: issued_def)
  show "perIndex (issued w w1) = []"
    by (simp add: i perIndex_counter)
qed

theorem zero_total_is_empty_report_witness:
  "loadLeaderboard ''SP1'' (dispatch (Inr (counterJSON ''0'')) (\<lambda>i. Inl (RemoteError ''busy''))
        (\<lambda>a. Inl (RemoteError ''busy'')) (Inl (RemoteError ''busy''))) LeaderboardPage_init world0
     = (Inr (), \<lparr>topUsers = [], isLoading = False\<rparr>,
        \<lparr>remote_state = (), lookups = [counterRequest (Str ''SP1'')]\<rparr>)
   \<and> loadHistory TabAll ''SP1'' (dispatch (Inr (counterJSON ''0'')) (\<lambda>i. Inl (RemoteError ''busy''))
        (\<lambda>a. Inl (RemoteError ''busy'')) (Inl (RemoteError ''busy'')))
        \<lparr>historyItems = [], historyLoading = True\<rparr> world0
     = (Inr (), \<lparr>historyItems = [], historyLoading = False\<rparr>,
        \<lparr>remote_state = (), lookups = [counterRequest (Str ''SP1'')]\<rparr>)"
proof -
  let ?remote = "dispatch (Inr (counterJSON ''0'')) (\<lambda>i. Inl (RemoteError ''busy''))
        (\<lambda>a. Inl (RemoteError ''busy'')) (Inl (RemoteError ''busy''))"
  let ?w1 = "\<lparr>remote_state = (), lookups = [counterRequest (Str ''SP1'')]\<rparr>"
  have c: "lookup ?remote (counterRequest (Str ''SP1'')) world0 = (Inr (counterJSON ''0''), ?w1)"
    by (simp add: lookup_dispatch_counter world0_def)
  have t: "totalPropsOf (counterJSON ''0'') = Inr (Num 0)"
    by (simp add: totalPropsOf_counterJSON parseIntString_0)
  have tab: "TabAll \<noteq> TabReceived" by simp
  from zero_total_is_empty_report [of ?remote "''SP1''" world0 "counterJSON ''0''" ?w1
      LeaderboardPage_init TabAll "''SP1''" "\<lparr>historyItems = [], historyLoading = True\<rparr>"] c t tab
  show ?thesis
    by (simp add: LeaderboardPage_init_def)
qed

text \<open>
  Claim C4, as amended. When the initial lookup (the count, or in "received" mode the
  subject's history list) is rejected after its retries, the loader stops: no further
  lookup is issued, the report stays as it was on the leaderboard and is empty on the
  history page, the loading flag is cleared, and the promise of the loader resolves.
  In no run does the promise of either loader reject.
\<close>

theorem initial_failure_is_absorbed:
  "(lookup remote (counterRequest (Str CA)) w = (Inl e, w1) \<longrightarrow>
      loadLeaderboard CA remote lpage w = (Inr (), lpage\<lparr>isLoading := False\<rparr>, w1)
      \<and> issued w w1 = [counterRequest (Str CA)])
   \<and> (lookup remote (if tab = TabReceived then historyRequest user else counterRequest (Str user)) w
        = (Inl e, w1) \<longrightarrow>
      loadHistory tab user remote hpage w
        = (Inr (), hpage\<lparr>historyItems := [], historyLoading := False\<rparr>, w1)
      \<and> issued w w1
          = [if tab = TabReceived then historyRequest user else counterRequest (Str user)])
   \<and> fst (loadLeaderboard CA remote lpage w) = Inr ()
   \<and> fst (loadHistory tab user remote hpage w) = Inr ()"
proof (intro conjI impI)
  assume c: "lookup remote (counterRequest (Str CA)) w = (Inl e, w1)"
  show "loadLeaderboard CA remote lpage w = (Inr (), lpage\<lparr>isLoading := False\<rparr>, w1)"
    by (simp add: loadLeaderboard_def loadLeaderboardWindow_counter_fails [OF c])
  show "issued w w1 = [counterRequest (Str CA)]"
    using lookup_issued [OF c] by (simp add: issued_def)
next
  assume c: "lookup remote (if tab = TabReceived then historyRequest user
      else counterRequest (Str user)) w = (Inl e, w1)"
  show "loadHistory tab user remote hpage w
        = (Inr (), hpage\<lparr>historyItems := [], historyLoading := False\<rparr>, w1)"
    by (simp add: loadHistory_def loadHistoryWindow_initial_fails [OF c])
  show "issued w w1 = [if tab = TabReceived then historyRequest user else counterRequest (Str user)]"
    using lookup_issued [OF c] by (simp add: issued_def)
next
  show "fst (loadLeaderboard CA remote lpage w) = Inr ()"
    by (simp add: loadLeaderboard_def loadLeaderboardWindow_def split: prod.splits)
  show "fst (loadHistory tab user remote hpage w) = Inr ()"
    by (simp add: loadHistory_def loadHistoryWindow_def split: prod.splits sum.splits)
qed

theorem initial_failure_is_absorbed_witness:
  "loadLeaderboard ''SP1'' (dispatch (Inl (RemoteError ''unreachable'')) (\<lambda>i. Inl (RemoteError ''busy''))
        (\<lambda>a. Inl (RemoteError ''busy'')) (Inl (RemoteError ''unreachable''))) LeaderboardPage_init world0
     = (Inr (), \<lparr>topUsers = [], isLoading = False\<rparr>,
        \<lparr>remote_state = (), lookups = [counterRequest (Str ''SP1'')]\<rparr>)
   \<and> loadHistory TabAll ''SP1'' (dispatch (Inl (RemoteError ''unreachable'')) (\<lambda>i. Inl (RemoteError ''busy''))
        (\<lambda>a. Inl (RemoteError ''busy'')) (Inl (RemoteError ''unreachable'')))
        \<lparr>historyItems = [], historyLoading = True\<rparr> world0
     = (Inr (), \<lparr>historyItems = [], historyLoading = False\<rparr>,
        \<lparr>remote_state = (), lookups = [counterRequest (Str ''SP1'')]\<rparr>)"
proof -
  let ?remote = "dispatch (Inl (RemoteError ''unreachable'')) (\<lambda>i. Inl (RemoteError ''busy''))
        (\<lambda>a. Inl (RemoteError ''busy'')) (Inl (RemoteError ''unreachable''))"
  let ?w1 = "\<lparr>remote_state = (), lookups = [counterRequest (Str ''SP1'')]\<rparr>"
  have c: "lookup ?remote (counterRequest (Str ''SP1'')) world0 = (Inl (RemoteError ''unreachable''), ?w1)"
    by (simp add: lookup_dispatch_counter_fails world0_def)
  from initial_failure_is_absorbed [of ?remote "''SP1''" world0 "RemoteError ''unreachable''" ?w1
      LeaderboardPage_init TabAll "''SP1''" "\<lparr>historyItems = [], historyLoading = True\<rparr>"] c
  show ?thesis
    by (simp add: LeaderboardPage_init_def)
qed

text \<open>
  Claim C4 as the specification words it: a failed initial lookup makes the whole
  operation fail, and the failure reaches the caller instead of an empty report. With a
  remote that rejects every call the count lookup is rejected, yet the promise of
  \<open>loadLeaderboard\<close> resolves and the report is the empty list, the very state a total
  of 0 leaves.
\<close>

theorem initial_failure_counterexample:
  "fst (lookup (dispatch (Inl (RemoteError ''unreachable'')) (\<lambda>i. Inl (RemoteError ''unreachable''))
          (\<lambda>a. Inl (RemoteError ''unreachable'')) (Inl (RemoteError ''unreachable'')))
        (counterRequest (Str ''SP1'')) world0) = Inl (RemoteError ''unreachable'')
   \<and> fst (loadLeaderboard ''SP1''
        (dispatch (Inl (RemoteError ''unreachable'')) (\<lambda>i. Inl (RemoteError ''unreachable''))
          (\<lambda>a. Inl (RemoteError ''unreachable'')) (Inl (RemoteError ''unreachable'')))
        LeaderboardPage_init world0) = Inr ()
   \<and> fst (snd (loadLeaderboard ''SP1''
        (dispatch (Inl (RemoteError ''unreachable'')) (\<lambda>i. Inl (RemoteError ''unreachable''))
          (\<lambda>a. Inl (RemoteError ''unreachable'')) (Inl (RemoteError ''unreachable'')))
        LeaderboardPage_init world0))
      = fst (snd (loadLeaderboard ''SP1''
        (dispatch (Inr (counterJSON ''0'')) (\<lambda>i. Inl (RemoteError ''unreachable''))
          (\<lambda>a. Inl (RemoteError ''unreachable'')) (Inl (RemoteError ''unreachable'')))
        LeaderboardPage_init world0))
   \<and> topUsers (fst (snd (loadLeaderboard ''SP1''
        (dispatch (Inl (RemoteError ''unreachable'')) (\<lambda>i. Inl (RemoteError ''unreachable''))
          (\<lambda>a. Inl (RemoteError ''unreachable'')) (Inl (RemoteError ''unreachable'')))
        LeaderboardPage_init world0))) = []"
  by (simp add: loadLeaderboard_def loadLeaderboardWindow_def loadLeaderboard_try_def
      lookup_dispatch_counter_fails lookup_dispatch_counter totalPropsOf_counterJSON
      parseIntString_0 LeaderboardPage_init_def)

section \<open>Sorting by props received\<close>

















section \<open>The sample chain\<close>

lemma lookup_dispatch_props:
  "lookup (dispatch c props stats history) (propsRequest a i) w
     = (props i, w\<lparr>lookups := lookups w @ [propsRequest a i]\<rparr>)"
proof (cases "props i")
  case (Inl e)
  have "lookup (dispatch c props stats history) (propsRequest a i) w
      = (Inl e, w\<lparr>lookups := lookups w @ [propsRequest a i]\<rparr>)"
    by (rule lookup_stateless_fails) (simp add: dispatch_def propsRequest_def Inl)
  with Inl show ?thesis by simp
next
  case (Inr v)
  have "lookup (dispatch c props stats history) (propsRequest a i) w
      = (Inr v, \<lparr>remote_state = (), lookups = lookups w @ [propsRequest a i]\<rparr>)"
    by (rule lookup_first_attempt) (simp add: dispatch_def propsRequest_def Inr)
  with Inr show ?thesis by simp
qed


lemma lookup_dispatch_history:
  "lookup (dispatch c props stats history) (historyRequest a) w
     = (history, w\<lparr>lookups := lookups w @ [historyRequest a]\<rparr>)"
proof (cases history)
  case (Inl e)
  have "lookup (dispatch c props stats history) (historyRequest a) w
      = (Inl e, w\<lparr>lookups := lookups w @ [historyRequest a]\<rparr>)"
    by (rule lookup_stateless_fails) (simp add: dispatch_def historyRequest_def Inl)
  with Inl show ?thesis by simp
next
  case (Inr v)
  have "lookup (dispatch c props stats history) (historyRequest a) w
      = (Inr v, \<lparr>remote_state = (), lookups = lookups w @ [historyRequest a]\<rparr>)"
    by (rule lookup_first_attempt) (simp add: dispatch_def historyRequest_def Inr)
  with Inr show ?thesis by simp
qed

lemma parseIntString_digit:
  "parseIntString ''4'' = Num 4" "parseIntString ''5'' = Num 5" "parseIntString ''7'' = Num 7"
  "parseIntString ''1'' = Num 1" "parseIntString ''2'' = Num 2" "parseIntString ''3'' = Num 3"
  "parseIntString ''100'' = Num 100" "parseIntString ''120'' = Num 120"
  "parseIntString ''130'' = Num 130"
  by (simp_all add: parseIntString_def dropWhite_none whiteLength_def parseDigits_def digitValue_def
      roundDouble_exact)



lemma statsFrom_statsJSON:
  "statsFrom a (Inr (statsJSON r g))
     = Some \<lparr>address = a, propsReceived = parseIntString r, propsGiven = parseIntString g\<rparr>"
  by (simp add: statsFrom_def statsOf_def statsJSON_def optProp_def fieldValue_def uintJSON_def)







section \<open>Deduplication\<close>




section \<open>Items of the history page\<close>

lemma kept_Inl: "kept tab user i (Inl e) = None"
  by (simp add: kept_def)


lemma wellFormed_propsJSON:
  "wellFormed (propsJSON g r a m t) (Str g) (Str r) (Str a) (Str m) (Str t)"
  by (simp add: wellFormed_def propDataOf_def propsJSON_def someJSON_def optProp_def js_or_def
      fieldValue_def principalJSON_def uintJSON_def stringJSON_def)



lemma keptReceived_wellFormed:
  "wellFormed json g r a m t \<Longrightarrow>
   keptReceived i (Inr json)
     = Some \<lparr>item_id = i, item_type = ItemReceived, item_from = g, item_to = r,
             amount = parseInt a, message = m, blockHeight = parseInt t\<rparr>"
  by (auto simp: wellFormed_def keptReceived_def receivedItem_def itemWith_def split: sum.splits)











section \<open>A rejected lookup within the window\<close>





section \<open>The "given" and "all" modes\<close>



section \<open>The "received" mode\<close>

lemma recentIdsOf_array:
  "getProp h ''value'' = Inr v \<Longrightarrow> optProp v ''value'' = Arr historyIds
   \<Longrightarrow> recentIdsOf h = Inr (rev (drop (length historyIds - 20) historyIds))"
  by (simp add: recentIdsOf_def js_or_def)

lemma readableIds_all:
  "\<forall>x\<in>set xs. \<not> isl (getProp x ''value'')
   \<Longrightarrow> readableIds xs = map (\<lambda>x. parseInt (optProp x ''value'')) xs"
  by (simp add: readableIds_def)

text \<open>
  Claim C9. In "received" mode, with \<open>historyIds\<close> the subject's history list: the
  loader takes its last 20 entries (all of them when there are fewer), most recent
  first, looks up the record of each entry by its index, in that order, and shows the
  item of every successfully fetched record tagged "received". The item does not depend
  on the subject: neither identity field of the record is compared with it.
\<close>

theorem received_mode_projects_recent:
  "(lookup remote (historyRequest user) w = (Inr h, w1)
      \<and> getProp h ''value'' = Inr v \<and> optProp v ''value'' = Arr historyIds
      \<and> recent = rev (drop (length historyIds - 20) historyIds)
      \<and> lookupAll remote (map (propsRequest (Str user)) (readableIds recent)) w1 = (rs, w2) \<longrightarrow>
        loadHistory TabReceived user remote hpage w
          = (Inr (),
             hpage\<lparr>historyItems :=
                     List.map_filter (\<lambda>(i, r). keptReceived i r) (zip (readableIds recent) rs),
                   historyLoading := False\<rparr>,
             w2)
        \<and> perIndex (issued w w2) = map (propsRequest (Str user)) (readableIds recent)
        \<and> length recent = min 20 (length historyIds))
   \<and> ((\<forall>x\<in>set xs. \<not> isl (getProp x ''value'')) \<longrightarrow>
        readableIds xs = map (\<lambda>x. parseInt (optProp x ''value'')) xs)
   \<and> (wellFormed json g r a m t \<longrightarrow>
        keptReceived i (Inr json)
          = Some \<lparr>item_id = i, item_type = ItemReceived, item_from = g, item_to = r,
                  amount = parseInt a, message = m, blockHeight = parseInt t\<rparr>)"
proof (intro conjI impI)
  assume h: "lookup remote (historyRequest user) w = (Inr h, w1)
      \<and> getProp h ''value'' = Inr v \<and> optProp v ''value'' = Arr historyIds
      \<and> recent = rev (drop (length historyIds - 20) historyIds)
      \<and> lookupAll remote (map (propsRequest (Str user)) (readableIds recent)) w1 = (rs, w2)"
  then have l: "lookup remote (historyRequest user) w = (Inr h, w1)"
    and v: "getProp h ''value'' = Inr v" "optProp v ''value'' = Arr historyIds"
    and recent: "recent = rev (drop (length historyIds - 20) historyIds)"
    and rs: "lookupAll remote (map (propsRequest (Str user)) (readableIds recent)) w1 = (rs, w2)"
    by blast+
  have ids: "recentIdsOf h = Inr recent"
    by (simp only: recent recentIdsOf_array [OF v])
  show "loadHistory TabReceived user remote hpage w
          = (Inr (),
             hpage\<lparr>historyItems :=
                     List.map_filter (\<lambda>(i, r). keptReceived i r) (zip (readableIds recent) rs),
                   historyLoading := False\<rparr>,
             w2)"
    by (simp only: loadHistory_def loadHistoryWindow_received_eq [OF l ids rs])
  have "lookups w2 = lookups w @ historyRequest user # map (propsRequest (Str user)) (readableIds recent)"
    using lookup_issued [OF l] lookupAll_result [OF rs] by simp
  then show "perIndex (issued w w2) = map (propsRequest (Str user)) (readableIds recent)"
    by (simp add: issued_def perIndex_def historyRequest_def propsRequest_def)
  show "length recent = min 20 (length historyIds)"
    by (simp add: recent)
next
  assume "\<forall>x\<in>set xs. \<not> isl (getProp x ''value'')"
  then show "readableIds xs = map (\<lambda>x. parseInt (optProp x ''value'')) xs"
    by (rule readableIds_all)
next
  assume "wellFormed json g r a m t"
  then show "keptReceived i (Inr json)
          = Some \<lparr>item_id = i, item_type = ItemReceived, item_from = g, item_to = r,
                  amount = parseInt a, message = m, blockHeight = parseInt t\<rparr>"
    by (rule keptReceived_wellFormed)
qed

lemma sample_recent:
  "readableIds [uintJSON ''3'', uintJSON ''2'', uintJSON ''0''] = [Num 3, Num 2, Num 0]"
  by (simp add: readableIds_def uintJSON_def optProp_def parseIntString_digit parseIntString_0)

lemma sample_received_scan:
  "lookupAll sampleRemote (map (propsRequest (Str ''SPA'')) [Num 3, Num 2, Num 0])
      \<lparr>remote_state = (), lookups = [historyRequest ''SPA'']\<rparr>
     = ([sampleProps (Num 3), sampleProps (Num 2), sampleProps (Num 0)],
        \<lparr>remote_state = (),
         lookups = historyRequest ''SPA'' # map (propsRequest (Str ''SPA'')) [Num 3, Num 2, Num 0]\<rparr>)"
  by (simp add: sampleRemote_def lookup_dispatch_props)

lemma sample_keptReceived:
  "keptReceived (Num 3) (sampleProps (Num 3))
     = Some \<lparr>item_id = Num 3, item_type = ItemReceived, item_from = Str ''SPB'', item_to = Str ''SPC'',
             amount = Num 1, message = Str ''nice'', blockHeight = Num 130\<rparr>"
  "keptReceived (Num 2) (sampleProps (Num 2))
     = Some \<lparr>item_id = Num 2, item_type = ItemReceived, item_from = Str ''SPC'', item_to = Str ''SPA'',
             amount = Num 2, message = Str ''great'', blockHeight = Num 120\<rparr>"
  "keptReceived (Num 0) (sampleProps (Num 0))
     = Some \<lparr>item_id = Num 0, item_type = ItemReceived, item_from = Str ''SPA'', item_to = Str ''SPB'',
             amount = Num 1, message = Str ''thanks'', blockHeight = Num 100\<rparr>"
  by (simp_all add: sampleProps_def keptReceived_wellFormed [OF wellFormed_propsJSON]
      parseIntString_digit)

theorem received_mode_projects_recent_witness:
  "loadHistory TabReceived ''SPA'' sampleRemote \<lparr>historyItems = [], historyLoading = True\<rparr> world0
     = (Inr (),
        \<lparr>historyItems =
           [\<lparr>item_id = Num 3, item_type = ItemReceived, item_from = Str ''SPB'', item_to = Str ''SPC'',
             amount = Num 1, message = Str ''nice'', blockHeight = Num 130\<rparr>,
            \<lparr>item_id = Num 2, item_type = ItemReceived, item_from = Str ''SPC'', item_to = Str ''SPA'',
             amount = Num 2, message = Str ''great'', blockHeight = Num 120\<rparr>,
            \<lparr>item_id = Num 0, item_type = ItemReceived, item_from = Str ''SPA'', item_to = Str ''SPB'',
             amount = Num 1, message = Str ''thanks'', blockHeight = Num 100\<rparr>],
         historyLoading = False\<rparr>,
        \<lparr>remote_state = (),
         lookups = historyRequest ''SPA'' # map (propsRequest (Str ''SPA'')) [Num 3, Num 2, Num 0]\<rparr>)
   \<and> readableIds [uintJSON ''3'', uintJSON ''2'', uintJSON ''0'']
     = map (\<lambda>x. parseInt (optProp x ''value'')) [uintJSON ''3'', uintJSON ''2'', uintJSON ''0'']
   \<and> keptReceived (Num 3) (Inr (propsJSON ''SPB'' ''SPC'' ''1'' ''nice'' ''130''))
     = Some \<lparr>item_id = Num 3, item_type = ItemReceived, item_from = Str ''SPB'', item_to = Str ''SPC'',
             amount = Num 1, message = Str ''nice'', blockHeight = Num 130\<rparr>"
proof -
  let ?w1 = "\<lparr>remote_state = (), lookups = [historyRequest ''SPA'']\<rparr>"
  let ?h = "listJSON [''0'', ''2'', ''3'']"
  let ?v = "Obj [(''type'', Str ''(list)''), (''value'', Arr (map uintJSON [''0'', ''2'', ''3'']))]"
  let ?ids = "map uintJSON [''0'', ''2'', ''3'']"
  let ?recent = "[uintJSON ''3'', uintJSON ''2'', uintJSON ''0'']"
  let ?rs = "[sampleProps (Num 3), sampleProps (Num 2), sampleProps (Num 0)]"
  let ?w2 = "\<lparr>remote_state = (),
         lookups = historyRequest ''SPA'' # map (propsRequest (Str ''SPA'')) [Num 3, Num 2, Num 0]\<rparr>"
  let ?page = "\<lparr>historyItems = [], historyLoading = True\<rparr>"
  let ?json = "propsJSON ''SPB'' ''SPC'' ''1'' ''nice'' ''130''"
  have l: "lookup sampleRemote (historyRequest ''SPA'') world0 = (Inr ?h, ?w1)"
    by (simp add: sampleRemote_def lookup_dispatch_history world0_def)
  have v: "getProp ?h ''value'' = Inr ?v" "optProp ?v ''value'' = Arr ?ids"
    by (simp_all add: listJSON_def optProp_def)
  have recent: "?recent = rev (drop (length ?ids - 20) ?ids)" by simp
  have rs: "lookupAll sampleRemote (map (propsRequest (Str ''SPA'')) (readableIds ?recent)) ?w1 = (?rs, ?w2)"
    by (simp only: sample_recent sample_received_scan)
  have r: "\<forall>x\<in>set ?recent. \<not> isl (getProp x ''value'')"
    by (simp add: uintJSON_def)
  have wf: "wellFormed ?json (Str ''SPB'') (Str ''SPC'') (Str ''1'') (Str ''nice'') (Str ''130'')"
    by (rule wellFormed_propsJSON)
  from received_mode_projects_recent [of sampleRemote "''SPA''" world0 ?h ?w1 ?v ?ids ?recent ?rs ?w2
      ?page ?recent ?json "Str ''SPB''" "Str ''SPC''" "Str ''1''" "Str ''nice''" "Str ''130''" "Num 3"]
    l v recent rs r wf
  have run: "loadHistory TabReceived ''SPA'' sampleRemote ?page world0
          = (Inr (),
             ?page\<lparr>historyItems :=
                     List.map_filter (\<lambda>(i, r). keptReceived i r) (zip (readableIds ?recent) ?rs),
                   historyLoading := False\<rparr>,
             ?w2)"
    and ids: "readableIds ?recent = map (\<lambda>x. parseInt (optProp x ''value'')) ?recent"
    and k: "keptReceived (Num 3) (Inr ?json)
          = Some \<lparr>item_id = Num 3, item_type = ItemReceived, item_from = Str ''SPB'',
                  item_to = Str ''SPC'', amount = parseInt (Str ''1''), message = Str ''nice'',
                  blockHeight = parseInt (Str ''130'')\<rparr>"
    by blast+
  have items: "List.map_filter (\<lambda>(i, r). keptReceived i r) (zip (readableIds ?recent) ?rs)
      = [\<lparr>item_id = Num 3, item_type = ItemReceived, item_from = Str ''SPB'', item_to = Str ''SPC'',
             amount = Num 1, message = Str ''nice'', blockHeight = Num 130\<rparr>,
            \<lparr>item_id = Num 2, item_type = ItemReceived, item_from = Str ''SPC'', item_to = Str ''SPA'',
             amount = Num 2, message = Str ''great'', blockHeight = Num 120\<rparr>,
            \<lparr>item_id = Num 0, item_type = ItemReceived, item_from = Str ''SPA'', item_to = Str ''SPB'',
             amount = Num 1, message = Str ''thanks'', blockHeight = Num 100\<rparr>]"
    by (simp add: sample_recent List.map_filter_simps sample_keptReceived)
  have first: "loadHistory TabReceived ''SPA'' sampleRemote ?page world0
     = (Inr (),
        \<lparr>historyItems =
           [\<lparr>item_id = Num 3, item_type = ItemReceived, item_from = Str ''SPB'', item_to = Str ''SPC'',
             amount = Num 1, message = Str ''nice'', blockHeight = Num 130\<rparr>,
            \<lparr>item_id = Num 2, item_type = ItemReceived, item_from = Str ''SPC'', item_to = Str ''SPA'',
             amount = Num 2, message = Str ''great'', blockHeight = Num 120\<rparr>,
            \<lparr>item_id = Num 0, item_type = ItemReceived, item_from = Str ''SPA'', item_to = Str ''SPB'',
             amount = Num 1, message = Str ''thanks'', blockHeight = Num 100\<rparr>],
         historyLoading = False\<rparr>,
        ?w2)"
    by (simp only: run items) simp
  have third: "keptReceived (Num 3) (Inr ?json)
     = Some \<lparr>item_id = Num 3, item_type = ItemReceived, item_from = Str ''SPB'', item_to = Str ''SPC'',
             amount = Num 1, message = Str ''nice'', blockHeight = Num 130\<rparr>"
    using k by (simp add: parseIntString_digit)
  from first ids third show ?thesis by (intro conjI)
qed

section \<open>The loaders on totals up to \<open>2^53\<close>\<close>

text \<open>Up to \<open>2^53\<close> the counters of the loops are exact, the loops end, and the
  loaders with JavaScript's counters are the loaders with integer counters.\<close>

lemma propsBody_at_Num: "propsBody_at CA remote (Num i) users w = propsBody CA remote i users w"
  by (simp add: propsBody_at_def propsBody_def split: prod.splits sum.splits)

lemma scanProps_fuel_safe:
  "\<lbrakk>- (2 ^ 53) \<le> i; T \<le> 2 ^ 53; nat (T - i) < fuel\<rbrakk>
   \<Longrightarrow> scanProps_fuel fuel CA remote (Num i) (Num T) users w
        = Returned (scanProps CA remote i T users w)"
proof (induction fuel arbitrary: i users w)
  case 0
  then show ?case by simp
next
  case (Suc fuel)
  show ?case
  proof (cases "i < T")
    case False
    then show ?thesis by (subst scanProps.simps) simp
  next
    case True
    with Suc.prems have "\<bar>i + 1\<bar> \<le> 2 ^ 53" by simp
    then have succ: "roundDouble (i + 1) = Num (i + 1)" by (simp add: roundDouble_exact)
    obtain u' w' where b: "propsBody CA remote i users w = (u', w')"
      by (cases "propsBody CA remote i users w")
    have "scanProps_fuel fuel CA remote (Num (i + 1)) (Num T) u' w'
        = Returned (scanProps CA remote (i + 1) T u' w')"
      using Suc.prems True by (intro Suc.IH) auto
    with True show ?thesis
      by (subst scanProps.simps) (simp add: propsBody_at_Num b succ)
  qed
qed

lemma scanItem_at_Num: "scanItem_at tab user (Num i) json = scanItem tab user i json"
  by (simp add: scanItem_at_def scanItem_def)

lemma historyBody_at_Num:
  "historyBody_at tab user remote (Num i) items w = historyBody tab user remote i items w"
  by (simp add: historyBody_at_def historyBody_def scanItem_at_Num split: prod.splits sum.splits)

lemma scanHistory_fuel_safe:
  "\<lbrakk>0 \<le> start; i \<le> 2 ^ 53; - 1 \<le> i; nat (i - start + 1) < fuel\<rbrakk>
   \<Longrightarrow> scanHistory_fuel fuel tab user remote (Num i) (Num start) items w
        = Returned (scanHistory tab user remote i start items w)"
proof (induction fuel arbitrary: i items w)
  case 0
  then show ?case by simp
next
  case (Suc fuel)
  show ?case
  proof (cases "start \<le> i")
    case False
    then show ?thesis by (subst scanHistory.simps) simp
  next
    case True
    with Suc.prems have "\<bar>i - 1\<bar> \<le> 2 ^ 53" by simp
    then have pred: "roundDouble (i - 1) = Num (i - 1)" by (simp add: roundDouble_exact)
    obtain items' w' where b: "historyBody tab user remote i items w = (items', w')"
      by (cases "historyBody tab user remote i items w")
    have "scanHistory_fuel fuel tab user remote (Num (i - 1)) (Num start) items' w'
        = Returned (scanHistory tab user remote (i - 1) start items' w')"
      using Suc.prems True by (intro Suc.IH) auto
    with True show ?thesis
      by (subst scanHistory.simps) (simp add: historyBody_at_Num b pred)
  qed
qed

lemma loadLeaderboardWindow_fuel_safe:
  assumes c: "lookup remote (counterRequest (Str CA)) w = (Inr c, w1)"
    and t: "totalPropsOf c = Inr (Num T)"
    and T: "0 \<le> T" "T \<le> 2 ^ 53" and L: "0 \<le> L"
    and fuel: "nat (min L T) < fuel"
  shows "loadLeaderboardWindow_fuel fuel L CA remote page w
           = Returned (loadLeaderboardWindow L CA remote page w)"
proof (cases "T = 0")
  case True
  with c t show ?thesis
    by (simp add: loadLeaderboardWindow_fuel_def loadLeaderboard_try_fuel_def
        loadLeaderboardWindow_def loadLeaderboard_try_def)
next
  case False
  define a where "a = T - min L T"
  have a: "0 \<le> a" "a \<le> 2 ^ 53" "max 0 a = a" using T L by (simp_all add: a_def min_def)
  then have "\<bar>a\<bar> \<le> 2 ^ 53" by simp
  then have rd: "roundDouble (T - min L T) = Num a" by (simp add: a_def roundDouble_exact)
  have "nat (T - a) < fuel" using fuel by (simp add: a_def)
  with T a have scan: "scanProps_fuel fuel CA remote (Num a) (Num T) [] w1
      = Returned (scanProps CA remote a T [] w1)"
    by (intro scanProps_fuel_safe) auto
  have "double_min (Num L) (Num T) = Num (min L T)" by (simp add: min_def)
  then have "double_sub (Num T) (double_min (Num L) (Num T)) = Num a" by (simp add: rd)
  then have new: "double_max (Num 0) (double_sub (Num T) (double_min (Num L) (Num T))) = Num a"
    using a by simp
  have old: "js_max (Num 0) (js_sub (Num T) (js_min (Num L) (Num T))) = Num a"
    using a by (simp add: a_def)
  from False c t show ?thesis
    unfolding loadLeaderboardWindow_fuel_def loadLeaderboard_try_fuel_def
      loadLeaderboardWindow_def loadLeaderboard_try_def Let_def
    by (simp add: new old scan del: double_max.simps double_sub.simps double_min.simps
        js_max.simps js_sub.simps js_min.simps split: prod.splits)
qed

lemma loadHistoryWindow_fuel_safe:
  assumes tab: "tab \<noteq> TabReceived"
    and c: "lookup remote (counterRequest (Str user)) w = (Inr c, w1)"
    and t: "totalPropsOf c = Inr (Num T)"
    and T: "0 \<le> T" "T \<le> 2 ^ 53" and L: "0 \<le> L"
    and fuel: "nat (min L T) < fuel"
  shows "loadHistoryWindow_fuel fuel L tab user remote page w
           = Returned (loadHistoryWindow L tab user remote page w)"
proof -
  define a where "a = T - min L T"
  have a: "0 \<le> a" "a \<le> 2 ^ 53" "max 0 a = a" using T L by (simp_all add: a_def min_def)
  then have "\<bar>a\<bar> \<le> 2 ^ 53" by simp
  then have rd: "roundDouble (T - min L T) = Num a" by (simp add: a_def roundDouble_exact)
  have "\<bar>T - 1\<bar> \<le> 2 ^ 53" using T by simp
  then have rd1: "double_sub (Num T) (Num 1) = Num (T - 1)" by (simp add: roundDouble_exact)
  have "nat (T - 1 - a + 1) < fuel" using fuel by (simp add: a_def)
  with T a have scan: "scanHistory_fuel fuel tab user remote (Num (T - 1)) (Num a) [] w1
      = Returned (scanHistory tab user remote (T - 1) a [] w1)"
    by (intro scanHistory_fuel_safe) auto
  have "double_min (Num L) (Num T) = Num (min L T)" by (simp add: min_def)
  then have "double_sub (Num T) (double_min (Num L) (Num T)) = Num a" by (simp add: rd)
  then have new: "double_max (Num 0) (double_sub (Num T) (double_min (Num L) (Num T))) = Num a"
    using a by simp
  have old: "js_max (Num 0) (js_sub (Num T) (js_min (Num L) (Num T))) = Num a"
    "js_sub (Num T) (Num 1) = Num (T - 1)"
    using a by (simp_all add: a_def)
  from tab c t show ?thesis
    unfolding loadHistoryWindow_fuel_def loadHistory_try_fuel_def
      loadHistoryWindow_def loadHistory_try_def Let_def
    by (simp add: new old rd1 scan del: double_max.simps double_sub.simps double_min.simps
        js_max.simps js_sub.simps js_min.simps split: prod.splits)
qed

lemma loadHistoryWindow_fuel_received:
  "loadHistoryWindow_fuel fuel L TabReceived user remote page w
     = Returned (loadHistoryWindow L TabReceived user remote page w)"
  by (simp add: loadHistoryWindow_fuel_def loadHistory_try_fuel_def
      loadHistoryWindow_def loadHistory_try_def split: prod.splits sum.splits)

section \<open>Totals beyond \<open>2^53\<close>\<close>

lemma below_overflow: "n < 2 ^ 64 \<Longrightarrow> \<not> overflow \<le> n"
proof -
  assume "n < 2 ^ 64"
  moreover have "(2::nat) ^ 64 < 2 ^ 1024" by (rule power_strict_increasing) simp_all
  ultimately show ?thesis unfolding overflow_def by linarith
qed

lemma roundNat_above:
  "roundNat 9007199254740993 = 9007199254740992"
  "roundNat 9007199254740994 = 9007199254740994"
  by (simp_all add: roundNat_def Let_def shiftOf_large shiftOf_small)

lemma roundDouble_above:
  "roundDouble 9007199254740993 = Num 9007199254740992"
  "roundDouble 9007199254740994 = Num 9007199254740994"
  by (simp_all add: roundDouble_def Let_def roundNat_above below_overflow)

lemma parse_2_53_plus_2: "parseIntString ''9007199254740994'' = Num 9007199254740994"
  by (simp add: parseIntString_def dropWhite_none whiteLength_def parseDigits_def digitValue_def
      roundDouble_above)

lemma scanProps_fuel_stalls:
  "double_lt i T \<Longrightarrow> double_succ i = i
   \<Longrightarrow> \<not> returned (scanProps_fuel fuel CA remote i T users w)"
proof (induction fuel arbitrary: users w)
  case 0
  show ?case by simp
next
  case (Suc fuel)
  then show ?case by (simp split: prod.splits)
qed

lemma scanProps_fuel_step:
  assumes "double_lt i T"
    and "\<And>fuel users w. \<not> returned (scanProps_fuel fuel CA remote (double_succ i) T users w)"
  shows "\<not> returned (scanProps_fuel fuel CA remote i T users w)"
  using assms by (cases fuel) (simp_all split: prod.splits)

lemma loadLeaderboard_fuel_not_returned:
  assumes "lookup remote (counterRequest (Str CA)) w = (Inr c, w1)"
    and "totalPropsOf c = Inr T" and "T \<noteq> Num 0"
    and "\<And>fuel users w. \<not> returned (scanProps_fuel fuel CA remote
            (double_max (Num 0) (double_sub T (double_min (Num 10) T))) T users w)"
  shows "\<not> returned (loadLeaderboard_fuel fuel CA remote page w)"
proof -
  obtain w2 where "scanProps_fuel fuel CA remote
      (double_max (Num 0) (double_sub T (double_min (Num 10) T))) T [] w1 = OutOfFuel w2"
    using assms(4) [of fuel "[]" w1]
    by (cases "scanProps_fuel fuel CA remote
      (double_max (Num 0) (double_sub T (double_min (Num 10) T))) T [] w1") auto
  with assms(1,2,3) show ?thesis
    by (simp add: loadLeaderboard_fuel_def loadLeaderboardWindow_fuel_def
        loadLeaderboard_try_fuel_def Let_def)
qed

lemma roundDouble_near_2_53:
  "roundDouble 9007199254740985 = Num 9007199254740985"
  "roundDouble 9007199254740986 = Num 9007199254740986"
  "roundDouble 9007199254740987 = Num 9007199254740987"
  "roundDouble 9007199254740988 = Num 9007199254740988"
  "roundDouble 9007199254740989 = Num 9007199254740989"
  "roundDouble 9007199254740990 = Num 9007199254740990"
  "roundDouble 9007199254740991 = Num 9007199254740991"
  "roundDouble 9007199254740992 = Num 9007199254740992"
  "roundDouble 9007199254740984 = Num 9007199254740984"
  "roundDouble 9007199254740944 = Num 9007199254740944"
  by (simp_all add: roundDouble_exact)

lemma scanProps_fuel_past_2_53:
  "\<not> returned (scanProps_fuel fuel CA remote (Num 9007199254740984) (Num 9007199254740994) users w)"
proof -
  let ?T = "Num 9007199254740994"
  have s0: "\<not> returned (scanProps_fuel fuel CA remote (Num 9007199254740992) ?T users w)"
    for fuel users w
    by (rule scanProps_fuel_stalls) (simp_all add: roundDouble_above)
  have s1: "\<not> returned (scanProps_fuel fuel CA remote (Num 9007199254740991) ?T users w)"
    for fuel users w
    by (rule scanProps_fuel_step) (simp_all add: roundDouble_near_2_53 s0)
  have s2: "\<not> returned (scanProps_fuel fuel CA remote (Num 9007199254740990) ?T users w)"
    for fuel users w
    by (rule scanProps_fuel_step) (simp_all add: roundDouble_near_2_53 s1)
  have s3: "\<not> returned (scanProps_fuel fuel CA remote (Num 9007199254740989) ?T users w)"
    for fuel users w
    by (rule scanProps_fuel_step) (simp_all add: roundDouble_near_2_53 s2)
  have s4: "\<not> returned (scanProps_fuel fuel CA remote (Num 9007199254740988) ?T users w)"
    for fuel users w
    by (rule scanProps_fuel_step) (simp_all add: roundDouble_near_2_53 s3)
  have s5: "\<not> returned (scanProps_fuel fuel CA remote (Num 9007199254740987) ?T users w)"
    for fuel users w
    by (rule scanProps_fuel_step) (simp_all add: roundDouble_near_2_53 s4)
  have s6: "\<not> returned (scanProps_fuel fuel CA remote (Num 9007199254740986) ?T users w)"
    for fuel users w
    by (rule scanProps_fuel_step) (simp_all add: roundDouble_near_2_53 s5)
  have s7: "\<not> returned (scanProps_fuel fuel CA remote (Num 9007199254740985) ?T users w)"
    for fuel users w
    by (rule scanProps_fuel_step) (simp_all add: roundDouble_near_2_53 s6)
  have s8: "\<not> returned (scanProps_fuel fuel CA remote (Num 9007199254740984) ?T users w)"
    for fuel users w
    by (rule scanProps_fuel_step) (simp_all add: roundDouble_near_2_53 s7)
  show ?thesis by (rule s8)
qed

lemma window_past_2_53:
  "double_max (Num 0) (double_sub (Num 9007199254740994) (double_min (Num 10) (Num 9007199254740994)))
     = Num 9007199254740984"
  "double_max (Num 0) (double_sub (Num 9007199254740994) (double_min (Num 50) (Num 9007199254740994)))
     = Num 9007199254740944"
  "double_sub (Num 9007199254740994) (Num 1) = Num 9007199254740992"
  by (simp_all add: roundDouble_near_2_53 roundDouble_above)

lemma lookupAll_dispatch_props:
  "lookupAll (dispatch c props stats history) (map (\<lambda>j. propsRequest a (Num j)) js) w
     = (map (\<lambda>j. props (Num j)) js, w\<lparr>lookups := lookups w @ map (\<lambda>j. propsRequest a (Num j)) js\<rparr>)"
  by (induction js arbitrary: w) (simp_all add: lookup_dispatch_props)

lemma scanProps_fuel_failed_step:
  "double_lt i T \<Longrightarrow> props i = Inl e
   \<Longrightarrow> scanProps_fuel (Suc fuel) CA (dispatch c props stats history) i T users w
        = scanProps_fuel fuel CA (dispatch c props stats history) (double_succ i) T users
            (w\<lparr>lookups := lookups w @ [propsRequest (Str CA) i]\<rparr>)"
  by (simp add: propsBody_at_def lookup_dispatch_props)

lemma map_filter_none: "(\<And>x. x \<in> set xs \<Longrightarrow> f x = None) \<Longrightarrow> List.map_filter f xs = []"
  by (induction xs) (simp_all add: List.map_filter_simps)


section \<open>The scan window\<close>

text \<open>
  Claim C3, as amended. For every window size \<open>limit\<close> and every total count \<open>T\<close> the
  initial lookup reports, up to \<open>2^53\<close>: the loader returns (any fuel above
  \<open>min(limit, T)\<close> is enough), the per-index lookups of the leaderboard are those of
  the indices \<open>max(0, T - limit), ..., T - 1\<close> in ascending order, those of the history
  scan the same indices in descending order; the indices are exactly the interval
  \<open>[max(0, T - limit), T)\<close>, each looked up once, and the number of per-index lookups
  does not exceed \<open>min(limit, T)\<close>.
\<close>

theorem scan_window_within_safe_total:
  "(T \<le> 2 ^ 53 \<and> min limit T < fuel
      \<and> lookup remote (counterRequest (Str CA)) w = (Inr c, w1)
      \<and> totalPropsOf c = Inr (Num (int T)) \<longrightarrow>
        (\<exists>lpage' w'.
           loadLeaderboardWindow_fuel fuel (int limit) CA remote lpage w = Returned (Inr (), lpage', w')
           \<and> perIndex (issued w w')
               = map (\<lambda>j. propsRequest (Str CA) (Num j)) (scanWindow (int limit) (int T))
           \<and> length (perIndex (issued w w')) \<le> min limit T))
   \<and> (T \<le> 2 ^ 53 \<and> min limit T < fuel \<and> tab \<noteq> TabReceived
      \<and> lookup remote (counterRequest (Str user)) w = (Inr c, w1)
      \<and> totalPropsOf c = Inr (Num (int T)) \<longrightarrow>
        (\<exists>hpage' w'.
           loadHistoryWindow_fuel fuel (int limit) tab user remote hpage w = Returned (Inr (), hpage', w')
           \<and> perIndex (issued w w')
               = map (\<lambda>j. propsRequest (Str user) (Num j)) (rev (scanWindow (int limit) (int T)))
           \<and> length (perIndex (issued w w')) \<le> min limit T))
   \<and> set (scanWindow (int limit) (int T)) = {max 0 (int T - int limit)..<int T}
   \<and> distinct (scanWindow (int limit) (int T))"
proof (intro conjI impI)
  assume h: "T \<le> 2 ^ 53 \<and> min limit T < fuel
      \<and> lookup remote (counterRequest (Str CA)) w = (Inr c, w1)
      \<and> totalPropsOf c = Inr (Num (int T))"
  then have c: "lookup remote (counterRequest (Str CA)) w = (Inr c, w1)"
    and t: "totalPropsOf c = Inr (Num (int T))"
    and T: "int T \<le> 2 ^ 53" and fuel: "nat (min (int limit) (int T)) < fuel"
    by (auto simp: min_def)
  obtain r lpage' w' where run: "loadLeaderboardWindow (int limit) CA remote lpage w = (r, lpage', w')"
    by (cases "loadLeaderboardWindow (int limit) CA remote lpage w")
  then have r: "r = Inr ()"
    by (auto simp: loadLeaderboardWindow_def split: prod.splits)
  have ret: "loadLeaderboardWindow_fuel fuel (int limit) CA remote lpage w = Returned (Inr (), lpage', w')"
    using loadLeaderboardWindow_fuel_safe [OF c t _ T _ fuel, of lpage] run r by simp
  obtain rs w2 where
    rs: "lookupAll remote (map (\<lambda>j. propsRequest (Str CA) (Num j)) (scanWindow (int limit) (int T))) w1
          = (rs, w2)"
    by (cases "lookupAll remote
          (map (\<lambda>j. propsRequest (Str CA) (Num j)) (scanWindow (int limit) (int T))) w1")
  have eq: "perIndex (issued w w')
      = map (\<lambda>j. propsRequest (Str CA) (Num j)) (scanWindow (int limit) (int T))"
    using leaderboard_issued [OF c t rs, of lpage] run
    by (simp add: perIndex_def counterRequest_def propsRequest_def statsRequest_def)
  have "length (perIndex (issued w w')) \<le> min limit T"
    by (simp only: eq length_map scanWindow_length)
  with ret eq show "\<exists>lpage' w'.
           loadLeaderboardWindow_fuel fuel (int limit) CA remote lpage w = Returned (Inr (), lpage', w')
           \<and> perIndex (issued w w')
               = map (\<lambda>j. propsRequest (Str CA) (Num j)) (scanWindow (int limit) (int T))
           \<and> length (perIndex (issued w w')) \<le> min limit T"
    by blast
next
  assume h: "T \<le> 2 ^ 53 \<and> min limit T < fuel \<and> tab \<noteq> TabReceived
      \<and> lookup remote (counterRequest (Str user)) w = (Inr c, w1)
      \<and> totalPropsOf c = Inr (Num (int T))"
  then have c: "lookup remote (counterRequest (Str user)) w = (Inr c, w1)"
    and t: "totalPropsOf c = Inr (Num (int T))" and tab: "tab \<noteq> TabReceived"
    and T: "int T \<le> 2 ^ 53" and fuel: "nat (min (int limit) (int T)) < fuel"
    by (auto simp: min_def)
  obtain r hpage' w' where run: "loadHistoryWindow (int limit) tab user remote hpage w = (r, hpage', w')"
    by (cases "loadHistoryWindow (int limit) tab user remote hpage w")
  then have r: "r = Inr ()"
    by (auto simp: loadHistoryWindow_def split: prod.splits sum.splits)
  have ret: "loadHistoryWindow_fuel fuel (int limit) tab user remote hpage w = Returned (Inr (), hpage', w')"
    using loadHistoryWindow_fuel_safe [OF tab c t _ T _ fuel, of hpage] run r by simp
  have eq: "perIndex (issued w w')
      = map (\<lambda>j. propsRequest (Str user) (Num j)) (rev (scanWindow (int limit) (int T)))"
    using history_issued [OF tab c t, of "int limit" hpage] run
    by (simp add: perIndex_def counterRequest_def propsRequest_def)
  have "length (perIndex (issued w w')) \<le> min limit T"
    by (simp only: eq length_map length_rev scanWindow_length)
  with ret eq show "\<exists>hpage' w'.
           loadHistoryWindow_fuel fuel (int limit) tab user remote hpage w = Returned (Inr (), hpage', w')
           \<and> perIndex (issued w w')
               = map (\<lambda>j. propsRequest (Str user) (Num j)) (rev (scanWindow (int limit) (int T)))
           \<and> length (perIndex (issued w w')) \<le> min limit T"
    by blast
next
  show "set (scanWindow (int limit) (int T)) = {max 0 (int T - int limit)..<int T}"
    by (rule scanWindow_set)
  show "distinct (scanWindow (int limit) (int T))"
    by (simp add: scanWindow_def)
qed

theorem scan_window_within_safe_total_witness:
  "(\<exists>lpage' w'.
      loadLeaderboardWindow_fuel 11 (int 10) ''SP1''
        (dispatch (Inr (counterJSON ''12'')) (\<lambda>i. Inl (RemoteError ''busy''))
           (\<lambda>a. Inl (RemoteError ''busy'')) (Inl (RemoteError ''busy'')))
        LeaderboardPage_init world0 = Returned (Inr (), lpage', w')
      \<and> perIndex (issued world0 w')
          = map (\<lambda>j. propsRequest (Str ''SP1'') (Num j)) [2, 3, 4, 5, 6, 7, 8, 9, 10, 11])
   \<and> (\<exists>hpage' w'.
      loadHistoryWindow_fuel 11 (int 10) TabGiven ''SP1''
        (dispatch (Inr (counterJSON ''12'')) (\<lambda>i. Inl (RemoteError ''busy''))
           (\<lambda>a. Inl (RemoteError ''busy'')) (Inl (RemoteError ''busy'')))
        \<lparr>historyItems = [], historyLoading = False\<rparr> world0 = Returned (Inr (), hpage', w')
      \<and> perIndex (issued world0 w')
          = map (\<lambda>j. propsRequest (Str ''SP1'') (Num j)) [11, 10, 9, 8, 7, 6, 5, 4, 3, 2])"
proof -
  let ?remote = "dispatch (Inr (counterJSON ''12'')) (\<lambda>i. Inl (RemoteError ''busy''))
             (\<lambda>a. Inl (RemoteError ''busy'')) (Inl (RemoteError ''busy''))"
  let ?w1 = "\<lparr>remote_state = (), lookups = [counterRequest (Str ''SP1'')]\<rparr>"
  have c: "lookup ?remote (counterRequest (Str ''SP1'')) world0 = (Inr (counterJSON ''12''), ?w1)"
    by (simp add: lookup_dispatch_counter world0_def)
  have t: "totalPropsOf (counterJSON ''12'') = Inr (Num (int 12))"
    by (simp add: totalPropsOf_counterJSON parse12)
  have b: "(12::nat) \<le> 2 ^ 53" "min 10 12 < (11::nat)" by simp_all
  have tab: "TabGiven \<noteq> TabReceived" by simp
  have win: "scanWindow (int 10) (int 12) = [2, 3, 4, 5, 6, 7, 8, 9, 10, 11]"
    by (simp add: scanWindow_def upto_rec1)
  note inst = scan_window_within_safe_total [of 12 10 11 ?remote "''SP1''" world0 "counterJSON ''12''"
      ?w1 LeaderboardPage_init TabGiven "''SP1''" "\<lparr>historyItems = [], historyLoading = False\<rparr>"]
  from inst b c t tab show ?thesis
    by (simp only: win) (simp, blast)
qed

text \<open>
  Claim C3 as it was stated fails beyond \<open>2^53\<close>. With the total \<open>2^53 + 2\<close> the
  leaderboard's counter reaches \<open>2^53\<close>, where \<open>i++\<close> leaves it: the loop never ends,
  whatever the fuel, the index \<open>2^53\<close> is looked up again and again (twelve per-index
  lookups after twelve iterations, more than \<open>min(10, T)\<close>) and \<open>2^53 + 1\<close> never. The
  history scan starts from \<open>T - 1\<close> rounded, which is \<open>2^53\<close>: it makes 49 lookups and
  skips the index \<open>T - 1\<close>.
\<close>

theorem scan_window_stalls_counterexample:
  "(\<forall>fuel. \<not> returned (loadLeaderboard_fuel fuel ''SP1''
        (dispatch (Inr (counterJSON ''9007199254740994'')) (\<lambda>i. Inl (RemoteError ''busy''))
           (\<lambda>a. Inl (RemoteError ''busy'')) (Inl (RemoteError ''busy'')))
        LeaderboardPage_init world0))
   \<and> loadLeaderboard_fuel 12 ''SP1''
        (dispatch (Inr (counterJSON ''9007199254740994'')) (\<lambda>i. Inl (RemoteError ''busy''))
           (\<lambda>a. Inl (RemoteError ''busy'')) (Inl (RemoteError ''busy'')))
        LeaderboardPage_init world0
      = OutOfFuel \<lparr>remote_state = (), lookups = counterRequest (Str ''SP1'')
          # map (\<lambda>j. propsRequest (Str ''SP1'') (Num j))
              [9007199254740984, 9007199254740985, 9007199254740986, 9007199254740987,
               9007199254740988, 9007199254740989, 9007199254740990, 9007199254740991,
               9007199254740992, 9007199254740992, 9007199254740992, 9007199254740992]\<rparr>
   \<and> loadHistory_fuel 50 TabAll ''SP1''
        (dispatch (Inr (counterJSON ''9007199254740994'')) (\<lambda>i. Inl (RemoteError ''busy''))
           (\<lambda>a. Inl (RemoteError ''busy'')) (Inl (RemoteError ''busy'')))
        \<lparr>historyItems = [], historyLoading = True\<rparr> world0
      = Returned (Inr (), \<lparr>historyItems = [], historyLoading = False\<rparr>,
          \<lparr>remote_state = (), lookups = counterRequest (Str ''SP1'')
             # map (\<lambda>j. propsRequest (Str ''SP1'') (Num j))
                 (rev [9007199254740944..9007199254740992])\<rparr>)
   \<and> length (rev [9007199254740944..9007199254740992::int]) = 49"
proof (intro conjI allI)
  let ?remote = "dispatch (Inr (counterJSON ''9007199254740994'')) (\<lambda>i. Inl (RemoteError ''busy''))
           (\<lambda>a. Inl (RemoteError ''busy'')) (Inl (RemoteError ''busy''))"
  let ?w1 = "\<lparr>remote_state = (), lookups = [counterRequest (Str ''SP1'')]\<rparr>"
  have c: "lookup ?remote (counterRequest (Str ''SP1'')) world0
      = (Inr (counterJSON ''9007199254740994''), ?w1)"
    by (simp add: lookup_dispatch_counter world0_def)
  have t: "totalPropsOf (counterJSON ''9007199254740994'') = Inr (Num 9007199254740994)"
    by (simp add: totalPropsOf_counterJSON parse_2_53_plus_2)
  show "\<not> returned (loadLeaderboard_fuel fuel ''SP1'' ?remote LeaderboardPage_init world0)" for fuel
    by (rule loadLeaderboard_fuel_not_returned [OF c t])
       (simp_all only: window_past_2_53 scanProps_fuel_past_2_53 number.inject, simp_all)
  have n: "(12::nat) = Suc (Suc (Suc (Suc (Suc (Suc (Suc (Suc (Suc (Suc (Suc (Suc 0)))))))))))"
    by simp
  show "loadLeaderboard_fuel 12 ''SP1'' ?remote LeaderboardPage_init world0
      = OutOfFuel \<lparr>remote_state = (), lookups = counterRequest (Str ''SP1'')
          # map (\<lambda>j. propsRequest (Str ''SP1'') (Num j))
              [9007199254740984, 9007199254740985, 9007199254740986, 9007199254740987,
               9007199254740988, 9007199254740989, 9007199254740990, 9007199254740991,
               9007199254740992, 9007199254740992, 9007199254740992, 9007199254740992]\<rparr>"
    unfolding loadLeaderboard_fuel_def loadLeaderboardWindow_fuel_def loadLeaderboard_try_fuel_def
      Let_def n
    by (simp add: c t window_past_2_53 scanProps_fuel_failed_step roundDouble_near_2_53
        roundDouble_above
        del: double_max.simps double_sub.simps double_min.simps scanProps_fuel.simps(2))
  have "(49::nat) < 50" by simp
  then have scan: "scanHistory_fuel 50 TabAll ''SP1'' ?remote (Num 9007199254740992)
        (Num 9007199254740944) [] ?w1
      = Returned (scanHistory TabAll ''SP1'' ?remote 9007199254740992 9007199254740944 [] ?w1)"
    by (intro scanHistory_fuel_safe) simp_all
  have none: "List.map_filter (\<lambda>(j, r). kept TabAll ''SP1'' j r)
      (zip js (map (\<lambda>j. Inl (RemoteError ''busy'')) js)) = []" for js :: "int list"
    by (rule map_filter_none) (auto simp: kept_Inl set_zip)
  define js :: "int list" where "js = rev [9007199254740944..9007199254740992]"
  have "scanHistory TabAll ''SP1'' ?remote 9007199254740992 9007199254740944 [] ?w1
      = ([], \<lparr>remote_state = (), lookups = counterRequest (Str ''SP1'')
             # map (\<lambda>j. propsRequest (Str ''SP1'') (Num j)) js\<rparr>)"
    unfolding scanHistory_eq js_def [symmetric]
    by (simp add: lookupAll_dispatch_props none)
  then show "loadHistory_fuel 50 TabAll ''SP1'' ?remote
        \<lparr>historyItems = [], historyLoading = True\<rparr> world0
      = Returned (Inr (), \<lparr>historyItems = [], historyLoading = False\<rparr>,
          \<lparr>remote_state = (), lookups = counterRequest (Str ''SP1'')
             # map (\<lambda>j. propsRequest (Str ''SP1'') (Num j))
                 (rev [9007199254740944..9007199254740992])\<rparr>)"
    unfolding loadHistory_fuel_def loadHistoryWindow_fuel_def loadHistory_try_fuel_def
      Let_def js_def [symmetric]
    by (simp add: c t window_past_2_53 scan
        del: double_max.simps double_sub.simps double_min.simps)
  show "length (rev [9007199254740944..9007199254740992::int]) = 49"
    by simp
qed

section \<open>Ranking\<close>





lemma parse_2_53_plus_1: "parseIntString ''9007199254740993'' = Num 9007199254740992"
  "parseIntString ''9007199254740992'' = Num 9007199254740992"
  by (simp_all add: parseIntString_def dropWhite_none whiteLength_def parseDigits_def digitValue_def
      roundDouble_above roundDouble_near_2_53)

text \<open>Counts that differ only beyond the precision of a double are the same number to the
  comparator: the two rows keep the order of their lookups.\<close>

lemma rounded_counts_tie:
  "rankUsers (List.map_filter (\<lambda>(a, r). statsFrom a r)
      [(Str ''SPA'', Inr (statsJSON ''9007199254740992'' ''0'')),
       (Str ''SPB'', Inr (statsJSON ''9007199254740993'' ''0''))])
     = [\<lparr>address = Str ''SPA'', propsReceived = Num 9007199254740992, propsGiven = Num 0, rank = 1\<rparr>,
        \<lparr>address = Str ''SPB'', propsReceived = Num 9007199254740992, propsGiven = Num 0, rank = 2\<rparr>]"
  by (simp add: List.map_filter_simps statsFrom_statsJSON parse_2_53_plus_1 parseIntString_0
      rankUsers_def byPropsReceived_def positive_roundDouble withRank_def upt_conv_Cons)




end
